theory Spec2Isabelle
  imports Main "HOL-Library.Word" "HOL-Library.DAList" "HOL-Library.Sublist"
begin

section \<open>The SWAP accounting core (swap/swap.go)\<close>

text \<open>
  A shallow embedding of the balance ledger, the cheque factory and the deployment loop
  of \<^verbatim>\<open>swap/swap.go\<close>. Go's \<^verbatim>\<open>int64\<close> and \<^verbatim>\<open>uint64\<close> are 64-bit words:
  \<open>+\<close> and unary minus wrap as in Go, the conversions \<^verbatim>\<open>int64(x)\<close> and
  \<^verbatim>\<open>uint64(x)\<close> keep the bits and so are the identity on words, and the comparisons of
  \<^verbatim>\<open>int64\<close> values are the signed ones (\<open>\<le>s\<close>). A Go result pair \<^verbatim>\<open>(v, err)\<close> is a
  pair whose second component is \<open>None\<close> for \<^verbatim>\<open>nil\<close>. A function that can panic
  (nil pointer dereference, \<^verbatim>\<open>enode.HexID\<close> on a malformed string) returns an
  \<open>option\<close>, \<open>None\<close> being the panic. The mutex of \<^verbatim>\<open>Swap\<close> is not modelled:
  every function is one sequential call.
\<close>

subsection \<open>Data\<close>

type_synonym int64 = "64 word"
type_synonym uint64 = "64 word"
type_synonym address = "160 word"
type_synonym bytes = "8 word list"

text \<open>
  Go error values. \<open>ErrNotFound\<close> is \<^verbatim>\<open>state.ErrNotFound\<close>. \<open>ErrDisconnect id thr\<close> is the
  error that \<^verbatim>\<open>Add\<close> builds with \<^verbatim>\<open>errors.New(fmt.Sprintf("balance for peer %s is over the
  disconnect threshold %v, disconnecting", peer.ID().String(), s.disconnectThreshold))\<close>:
  the two arguments are the two values formatted into the message. \<open>Err msg\<close> is any
  other error (of the store, the oracle, the signer, the transport, the chain).
\<close>

datatype error = ErrNotFound | ErrDisconnect string int64 | Err string

text \<open>
  Modelled from the spec: the type \<^verbatim>\<open>Cheque\<close> (with its embedded \<^verbatim>\<open>ChequeParams\<close>) is
  declared in another file of the package. The fields are those that \<^verbatim>\<open>createCheque\<close> assigns
  and the data model of the specification lists.
\<close>

record cheque =
  Contract :: address
  Beneficiary :: address
  Serial :: uint64
  Amount :: uint64
  Honey :: uint64
  Timeout :: uint64
  Sig :: bytes

text \<open>The zero value of the struct, from which a composite literal starts.\<close>

definition zeroCheque :: cheque where
  "zeroCheque = \<lparr>Contract = 0, Beneficiary = 0, Serial = 0, Amount = 0, Honey = 0,
     Timeout = 0, Sig = []\<rparr>"

subsection \<open>The persistent store\<close>

text \<open>
  Modelled from the spec: the interface \<^verbatim>\<open>state.Store\<close> is declared in the package
  \<^verbatim>\<open>state\<close>. Its contract is \<^verbatim>\<open>Get(key) -> value, notFoundError|otherError\<close>,
  \<^verbatim>\<open>Put(key, value) -> error\<close>, \<^verbatim>\<open>Keys(prefix) -> []key\<close>. The store holds one value per
  key (an association list with distinct keys), and a script of injected faults: every
  operation consumes the head of \<open>faults\<close>, and fails with that error when it is
  \<open>Some e\<close>; an exhausted script means no further fault. A failed \<^verbatim>\<open>Get\<close> leaves the
  variable it was given untouched, and a failed \<^verbatim>\<open>Put\<close> writes nothing (no torn
  writes).
\<close>

datatype store_val = VInt64 int64 | VCheque cheque

record store =
  data :: "(string, store_val) alist"
  faults :: "error option list"

definition next_fault :: "store \<Rightarrow> error option \<times> store" where
  "next_fault st = (case faults st of [] \<Rightarrow> (None, st) | f # fs \<Rightarrow> (f, st\<lparr>faults := fs\<rparr>))"

text \<open>\<^verbatim>\<open>Get(key, &target)\<close> for a target of type \<^verbatim>\<open>int64\<close>.\<close>

definition Get_int64 :: "store \<Rightarrow> string \<Rightarrow> int64 \<Rightarrow> (int64 \<times> error option) \<times> store" where
  "Get_int64 st key target =
     (case next_fault st of
        (Some e, st') \<Rightarrow> ((target, Some e), st')
      | (None, st') \<Rightarrow>
          (case DAList.lookup (data st') key of
             None \<Rightarrow> ((target, Some ErrNotFound), st')
           | Some (VInt64 v) \<Rightarrow> ((v, None), st')
           | Some (VCheque c) \<Rightarrow> ((target, Some (Err ''cannot decode int64'')), st')))"

text \<open>\<^verbatim>\<open>Get(key, &target)\<close> for a target of type \<^verbatim>\<open>*Cheque\<close> (\<open>None\<close> is the nil pointer).\<close>

definition Get_cheque ::
  "store \<Rightarrow> string \<Rightarrow> cheque option \<Rightarrow> (cheque option \<times> error option) \<times> store" where
  "Get_cheque st key target =
     (case next_fault st of
        (Some e, st') \<Rightarrow> ((target, Some e), st')
      | (None, st') \<Rightarrow>
          (case DAList.lookup (data st') key of
             None \<Rightarrow> ((target, Some ErrNotFound), st')
           | Some (VCheque c) \<Rightarrow> ((Some c, None), st')
           | Some (VInt64 v) \<Rightarrow> ((target, Some (Err ''cannot decode cheque'')), st')))"

definition Put :: "store \<Rightarrow> string \<Rightarrow> store_val \<Rightarrow> error option \<times> store" where
  "Put st key v =
     (case next_fault st of
        (Some e, st') \<Rightarrow> (Some e, st')
      | (None, st') \<Rightarrow> (None, st'\<lparr>data := DAList.update key v (data st')\<rparr>))"

definition Keys :: "store \<Rightarrow> string \<Rightarrow> (string list \<times> error option) \<times> store" where
  "Keys st pre =
     (case next_fault st of
        (Some e, st') \<Rightarrow> (([], Some e), st')
      | (None, st') \<Rightarrow> ((filter (prefix pre) (map fst (DAList.impl_of (data st'))), None), st'))"

subsection \<open>Peers, owner, the package environment\<close>

text \<open>
  Modelled from the spec: the type \<^verbatim>\<open>Peer\<close> is declared in another file of the package.
  \<^verbatim>\<open>createCheque\<close> reads its field \<^verbatim>\<open>beneficiary\<close> and \<^verbatim>\<open>sendCheque\<close> calls its method
  \<^verbatim>\<open>Send\<close>, which hands a message to the external transport. \<open>sent\<close> is the list of
  cheques handed to the transport so far, delivered or not, and \<open>sendReply\<close> is the
  transport's answer for a message.
\<close>

record Peer =
  beneficiary :: address
  sendReply :: "cheque \<Rightarrow> error option"
  sent :: "cheque list"

text \<open>\<^verbatim>\<open>swapPeer.Send(ctx, &EmitChequeMsg{Cheque: cheque})\<close>.\<close>

definition Send :: "Peer \<Rightarrow> cheque \<Rightarrow> error option \<times> Peer" where
  "Send sp msg = (sendReply sp msg, sp\<lparr>sent := sent sp @ [msg]\<rparr>)"

record Owner =
  ownerContract :: address
  ownerAddress :: address
  privateKey :: nat
  publicKey :: nat

record Params =
  InitialDepositAmount :: uint64

text \<open>
  What \<^verbatim>\<open>swap.go\<close> uses and neither defines itself nor the specification describes:
  the functions of \<^verbatim>\<open>enode.ID\<close> and of the crypto library (\<open>HexID\<close> is \<open>None\<close> where
  \<^verbatim>\<open>enode.HexID\<close> panics), \<^verbatim>\<open>Cheque.Sign\<close>, \<^verbatim>\<open>NewPriceOracle\<close>, and the package constants.
  They are parameters of the model; \<open>'p\<close> is \<^verbatim>\<open>enode.ID\<close>.
\<close>

record 'p pkg =
  ID_String :: "'p \<Rightarrow> string"
  HexID :: "string \<Rightarrow> 'p option"
  Sign :: "cheque \<Rightarrow> nat \<Rightarrow> bytes \<times> error option"
  PublicKeyOf :: "nat \<Rightarrow> nat"
  PubkeyToAddress :: "nat \<Rightarrow> address"
  NewPriceOracle :: "uint64 \<Rightarrow> uint64 \<times> error option"
  DefaultInitialDepositAmount :: uint64
  DefaultPaymentThreshold :: int64
  DefaultDisconnectThreshold :: int64
  defaultCashInDelay :: uint64
  deployRetries :: int
  deployDelay :: nat

text \<open>
  The struct \<^verbatim>\<open>Swap\<close>. \<open>balances\<close> is enumerated by \<^verbatim>\<open>BalancePeers\<close>, so it is an
  association list with distinct keys (Go leaves the order of the enumeration open; the
  model takes the order of the list). An entry of \<open>cheques\<close> may hold the nil pointer:
  \<open>Some None\<close>. The fields \<^verbatim>\<open>api\<close>, \<^verbatim>\<open>lock\<close> and \<^verbatim>\<open>backend\<close> are handles that no function
  modelled here reads. \<open>contractReference\<close> is the handle of the deployed contract,
  \<open>None\<close> for nil. The field \<^verbatim>\<open>oracle\<close> is named \<open>priceOracle\<close> here.
\<close>

record 'p Swap =
  stateStore :: store
  balances :: "('p, int64) alist"
  cheques :: "'p \<rightharpoonup> cheque option"
  peers :: "'p \<rightharpoonup> Peer"
  owner :: Owner
  params :: Params
  contractReference :: "nat option"
  priceOracle :: "uint64 \<Rightarrow> uint64 \<times> error option"
  paymentThreshold :: int64
  disconnectThreshold :: int64

definition NewDefaultParams :: "'p pkg \<Rightarrow> Params" where
  "NewDefaultParams G = \<lparr>InitialDepositAmount = DefaultInitialDepositAmount G\<rparr>"

definition createOwner :: "'p pkg \<Rightarrow> nat \<Rightarrow> address \<Rightarrow> Owner" where
  "createOwner G prvkey contract =
     (let pubkey = PublicKeyOf G prvkey
      in \<lparr>ownerContract = contract, ownerAddress = PubkeyToAddress G pubkey,
          privateKey = prvkey, publicKey = pubkey\<rparr>)"

definition New :: "'p pkg \<Rightarrow> store \<Rightarrow> nat \<Rightarrow> address \<Rightarrow> 'p Swap" where
  "New G st prvkey contract =
     \<lparr>stateStore = st, balances = DAList.empty, cheques = Map.empty, peers = Map.empty,
      owner = createOwner G prvkey contract, params = NewDefaultParams G,
      contractReference = None, priceOracle = NewPriceOracle G,
      paymentThreshold = DefaultPaymentThreshold G,
      disconnectThreshold = DefaultDisconnectThreshold G\<rparr>"

definition balancePrefix :: string where "balancePrefix = ''balance_''"
definition sentChequePrefix :: string where "sentChequePrefix = ''sent_cheque_''"
definition receivedChequePrefix :: string where "receivedChequePrefix = ''received_cheque_''"

definition balanceKey :: "'p pkg \<Rightarrow> 'p \<Rightarrow> string" where
  "balanceKey G peer = balancePrefix @ ID_String G peer"

definition sentChequeKey :: "'p pkg \<Rightarrow> 'p \<Rightarrow> string" where
  "sentChequeKey G peer = sentChequePrefix @ ID_String G peer"

definition receivedChequeKey :: "'p pkg \<Rightarrow> 'p \<Rightarrow> string" where
  "receivedChequeKey G peer = receivedChequePrefix @ ID_String G peer"

text \<open>
  \<^verbatim>\<open>enode.HexID(key[len(prefix):])\<close>: the slice expression panics when the key is shorter
  than the prefix, \<^verbatim>\<open>HexID\<close> when the rest is not an ID.
\<close>

definition keyToID :: "'p pkg \<Rightarrow> string \<Rightarrow> string \<Rightarrow> 'p option" where
  "keyToID G key pre =
     (if length key < length pre then None else HexID G (drop (length pre) key))"

subsection \<open>The balance ledger\<close>

text \<open>\<^verbatim>\<open>s.balances[peer]\<close>: a missing key reads as zero.\<close>

definition balanceOf :: "'p Swap \<Rightarrow> 'p \<Rightarrow> int64" where
  "balanceOf s peer = (case DAList.lookup (balances s) peer of None \<Rightarrow> 0 | Some b \<Rightarrow> b)"

definition loadBalance :: "'p pkg \<Rightarrow> 'p Swap \<Rightarrow> 'p \<Rightarrow> error option \<times> 'p Swap" where
  "loadBalance G s peer =
     (case DAList.lookup (balances s) peer of
        Some b \<Rightarrow> (None, s)
      | None \<Rightarrow>
          (case Get_int64 (stateStore s) (balanceKey G peer) 0 of
             ((peerBalance, err), st') \<Rightarrow>
               (err, s\<lparr>stateStore := st',
                       balances := DAList.update peer peerBalance (balances s)\<rparr>)))"

definition updateBalance ::
  "'p pkg \<Rightarrow> 'p Swap \<Rightarrow> 'p \<Rightarrow> int64 \<Rightarrow> (int64 \<times> error option) \<times> 'p Swap" where
  "updateBalance G s peer amount =
     (let peerBalance = balanceOf s peer + amount;
          s1 = s\<lparr>balances := DAList.update peer peerBalance (balances s)\<rparr>
      in case Put (stateStore s1) (balanceKey G peer) (VInt64 peerBalance) of
           (err, st') \<Rightarrow> ((peerBalance, err), s1\<lparr>stateStore := st'\<rparr>))"

text \<open>\<^verbatim>\<open>resetBalance\<close> discards both results of \<^verbatim>\<open>updateBalance\<close>.\<close>

definition resetBalance :: "'p pkg \<Rightarrow> 'p Swap \<Rightarrow> 'p \<Rightarrow> int64 \<Rightarrow> 'p Swap" where
  "resetBalance G s peerID amount = snd (updateBalance G s peerID amount)"

definition Balance :: "'p pkg \<Rightarrow> 'p Swap \<Rightarrow> 'p \<Rightarrow> (int64 \<times> error option) \<times> 'p Swap" where
  "Balance G s peer =
     (case DAList.lookup (balances s) peer of
        Some peerBalance \<Rightarrow> ((peerBalance, None), s)
      | None \<Rightarrow>
          (case Get_int64 (stateStore s) (balanceKey G peer) 0 of
             (r, st') \<Rightarrow> (r, s\<lparr>stateStore := st'\<rparr>)))"

subsection \<open>The cheque factory\<close>

text \<open>
  Modelled from the spec: \<^verbatim>\<open>getPeer\<close> is defined in another file of the package; it looks the
  peer up in the map \<^verbatim>\<open>peers\<close> ("map of all swap Peers"), and the result is nil
  (\<open>None\<close>) for a peer that is not registered.
\<close>

definition getPeer :: "'p Swap \<Rightarrow> 'p \<Rightarrow> Peer option" where
  "getPeer s peer = peers s peer"

definition loadLastSentCheque :: "'p pkg \<Rightarrow> 'p Swap \<Rightarrow> 'p \<Rightarrow> error option \<times> 'p Swap" where
  "loadLastSentCheque G s peer =
     (case cheques s peer of
        Some c \<Rightarrow> (None, s)
      | None \<Rightarrow>
          (case Get_cheque (stateStore s) (sentChequeKey G peer) None of
             ((cheque, err), st') \<Rightarrow>
               (err, s\<lparr>stateStore := st', cheques := (cheques s)(peer \<mapsto> cheque)\<rparr>)))"

definition signContent :: "'p pkg \<Rightarrow> 'p Swap \<Rightarrow> cheque \<Rightarrow> bytes \<times> error option" where
  "signContent G s cheque = Sign G cheque (privateKey (owner s))"

text \<open>
  \<^verbatim>\<open>createCheque\<close> returns the pair \<^verbatim>\<open>(cheque, err)\<close>; it panics at
  \<^verbatim>\<open>swapPeer.beneficiary\<close> when \<^verbatim>\<open>getPeer\<close> returned nil.
\<close>

definition createCheque ::
  "'p pkg \<Rightarrow> 'p Swap \<Rightarrow> 'p \<Rightarrow> ((cheque option \<times> error option) \<times> 'p Swap) option" where
  "createCheque G s peer =
     (case getPeer s peer of
        None \<Rightarrow> None
      | Some swapPeer \<Rightarrow>
          (let peerBalance = balanceOf s peer;
               honey = - peerBalance
           in case priceOracle s honey of
                (amount, Some e) \<Rightarrow> Some ((None, Some e), s)
              | (amount, None) \<Rightarrow>
                  (let s1 = snd (loadLastSentCheque G s peer);
                       lastCheque = (case cheques s1 peer of None \<Rightarrow> None | Some c \<Rightarrow> c);
                       cheque0 =
                         (case lastCheque of
                            None \<Rightarrow> zeroCheque\<lparr>Serial := 1, Amount := amount\<rparr>
                          | Some l \<Rightarrow>
                              zeroCheque\<lparr>Serial := Serial l + 1, Amount := Amount l + amount\<rparr>);
                       cheque1 = cheque0\<lparr>Timeout := defaultCashInDelay G,
                                         Contract := ownerContract (owner s1),
                                         Honey := honey,
                                         Beneficiary := beneficiary swapPeer\<rparr>
                   in case signContent G s1 cheque1 of
                        (sig, err) \<Rightarrow> Some ((Some (cheque1\<lparr>Sig := sig\<rparr>), err), s1))))"

text \<open>
  \<^verbatim>\<open>sendCheque\<close>. The Go code fetches the pointer \<^verbatim>\<open>swapPeer\<close> first and calls
  \<^verbatim>\<open>swapPeer.Send\<close> last; nothing in between touches the map \<^verbatim>\<open>peers\<close>.
\<close>

definition sendCheque :: "'p pkg \<Rightarrow> 'p Swap \<Rightarrow> 'p \<Rightarrow> (error option \<times> 'p Swap) option" where
  "sendCheque G s peer =
     (case createCheque G s peer of
        None \<Rightarrow> None
      | Some ((c, Some e), s1) \<Rightarrow> Some (Some e, s1)
      | Some ((None, None), s1) \<Rightarrow> None
      | Some ((Some cheque, None), s1) \<Rightarrow>
          (let s2 = s1\<lparr>cheques := (cheques s1)(peer \<mapsto> Some cheque)\<rparr>
           in case Put (stateStore s2) (sentChequeKey G peer) (VCheque cheque) of
                (Some e, st') \<Rightarrow> Some (Some e, s2\<lparr>stateStore := st'\<rparr>)
              | (None, st') \<Rightarrow>
                  (let s3 = resetBalance G (s2\<lparr>stateStore := st'\<rparr>) peer (Amount cheque)
                   in case getPeer s3 peer of
                        None \<Rightarrow> None
                      | Some swapPeer \<Rightarrow>
                          (case Send swapPeer cheque of
                             (err, swapPeer') \<Rightarrow>
                               Some (err, s3\<lparr>peers := (peers s3)(peer \<mapsto> swapPeer')\<rparr>)))))"

subsection \<open>Add\<close>

text \<open>
  \<^verbatim>\<open>Add\<close> has the named result \<^verbatim>\<open>err\<close>: the bare \<^verbatim>\<open>return\<close> at its end returns whatever
  was last assigned to it, which on the cheque path is the result of \<^verbatim>\<open>sendCheque\<close>.
  The argument \<open>peer\<close> is \<^verbatim>\<open>peer.ID()\<close>.
\<close>

definition Add :: "'p pkg \<Rightarrow> 'p Swap \<Rightarrow> int64 \<Rightarrow> 'p \<Rightarrow> (error option \<times> 'p Swap) option" where
  "Add G s amount peer =
     (case loadBalance G s peer of
        (err, s1) \<Rightarrow>
          if err \<noteq> None \<and> err \<noteq> Some ErrNotFound then Some (err, s1)
          else if disconnectThreshold s1 \<le>s balanceOf s1 peer
          then Some (Some (ErrDisconnect (ID_String G peer) (disconnectThreshold s1)), s1)
          else
            (case updateBalance G s1 peer amount of
               ((newBalance, Some e), s2) \<Rightarrow> Some (Some e, s2)
             | ((newBalance, None), s2) \<Rightarrow>
                 if newBalance \<le>s - paymentThreshold s2
                 then sendCheque G s2 peer
                 else Some (None, s2)))"

subsection \<open>Enumerating the peers with a balance\<close>

text \<open>
  The second loop of \<^verbatim>\<open>BalancePeers\<close>: every key of the store is turned into an ID and
  appended to the result (\<open>peerList\<close>, the named result \<^verbatim>\<open>peers\<close>) unless \<^verbatim>\<open>knownPeers\<close>
  has it. \<^verbatim>\<open>knownPeers\<close> is filled by the first loop only.
\<close>

fun appendStorePeers :: "'p pkg \<Rightarrow> 'p set \<Rightarrow> 'p list \<Rightarrow> string list \<Rightarrow> 'p list option" where
  "appendStorePeers G knownPeers peerList [] = Some peerList"
| "appendStorePeers G knownPeers peerList (storeBalancePeer # rest) =
     (case keyToID G storeBalancePeer balancePrefix of
        None \<Rightarrow> None
      | Some peerID \<Rightarrow>
          appendStorePeers G knownPeers
            (if peerID \<notin> knownPeers then peerList @ [peerID] else peerList) rest)"

definition BalancePeers ::
  "'p pkg \<Rightarrow> 'p Swap \<Rightarrow> (('p list \<times> error option) \<times> 'p Swap) option" where
  "BalancePeers G s =
     (let peers0 = map fst (DAList.impl_of (balances s));
          knownPeers = set peers0
      in case Keys (stateStore s) balancePrefix of
           ((storeBalancePeers, Some e), st') \<Rightarrow> Some (([], Some e), s\<lparr>stateStore := st'\<rparr>)
         | ((storeBalancePeers, None), st') \<Rightarrow>
             (case appendStorePeers G knownPeers peers0 storeBalancePeers of
                None \<Rightarrow> None
              | Some peerList \<Rightarrow> Some ((peerList, None), s\<lparr>stateStore := st'\<rparr>)))"

subsection \<open>Deployment\<close>

text \<open>
  Modelled from the spec: the chain backend, \<^verbatim>\<open>swap.Deploy\<close> and \<^verbatim>\<open>bind.WaitDeployed\<close> are
  defined in other packages. "Each attempt: submit deployment transaction; [...] if
  submission succeeds, wait for on-chain confirmation". \<open>deployReply b n\<close> is the answer
  \<^verbatim>\<open>(contractReference, tx, err)\<close> to the \<open>n\<close>-th deployment transaction ever submitted to
  the backend, \<open>waitReply b tx\<close> the answer \<^verbatim>\<open>(addr, err)\<close> of the wait for \<open>tx\<close>, and
  \<open>submitted\<close> the time of every submission so far. Time is a counter that
  \<^verbatim>\<open>time.Sleep(d)\<close> advances by \<open>d\<close>.
\<close>

record Backend =
  deployReply :: "nat \<Rightarrow> nat option \<times> nat \<times> error option"
  waitReply :: "nat \<Rightarrow> address \<times> error option"
  submitted :: "nat list"

definition swap_Deploy :: "Backend \<Rightarrow> nat \<Rightarrow> (nat option \<times> nat \<times> error option) \<times> Backend" where
  "swap_Deploy b now = (deployReply b (length (submitted b)), b\<lparr>submitted := submitted b @ [now]\<rparr>)"

definition WaitDeployed :: "Backend \<Rightarrow> nat \<Rightarrow> address \<times> error option" where
  "WaitDeployed b tx = waitReply b tx"

text \<open>
  The loop of \<^verbatim>\<open>deployLoop\<close>, from the iteration \<open>try\<close> on; \<open>addr\<close> and \<open>err\<close> are the
  named results, which keep what the last iteration assigned.
\<close>

function deployLoop_from ::
  "'p pkg \<Rightarrow> int \<Rightarrow> address \<Rightarrow> error option \<Rightarrow> 'p Swap \<Rightarrow> Backend \<Rightarrow> nat
     \<Rightarrow> (address \<times> error option) \<times> 'p Swap \<times> Backend \<times> nat" where
  "deployLoop_from G try addr err s b now =
     (if try < deployRetries G then
        (let now1 = (if try > 0 then now + deployDelay G else now)
         in case swap_Deploy b now1 of
              ((ref, tx, Some e), b1) \<Rightarrow>
                deployLoop_from G (try + 1) addr (Some e) (s\<lparr>contractReference := ref\<rparr>) b1 now1
            | ((ref, tx, None), b1) \<Rightarrow>
                (case WaitDeployed b1 tx of
                   (addr', Some e) \<Rightarrow>
                     deployLoop_from G (try + 1) addr' (Some e)
                       (s\<lparr>contractReference := ref\<rparr>) b1 now1
                 | (addr', None) \<Rightarrow> ((addr', None), s\<lparr>contractReference := ref\<rparr>, b1, now1)))
      else ((addr, err), s, b, now))"
  by pat_completeness auto
termination
  by (relation "measure (\<lambda>(G, try, addr, err, s, b, now). nat (deployRetries G - try))") auto

definition deployLoop ::
  "'p pkg \<Rightarrow> 'p Swap \<Rightarrow> Backend \<Rightarrow> nat \<Rightarrow> (address \<times> error option) \<times> 'p Swap \<times> Backend \<times> nat" where
  "deployLoop G s b now = deployLoop_from G 0 0 None s b now"

definition deploy ::
  "'p pkg \<Rightarrow> 'p Swap \<Rightarrow> Backend \<Rightarrow> nat \<Rightarrow> error option \<times> 'p Swap \<times> Backend \<times> nat" where
  "deploy G s b now =
     (case deployLoop G s b now of
        ((address, Some e), s', b', now') \<Rightarrow> (Some e, s', b', now')
      | ((address, None), s', b', now') \<Rightarrow>
          (None, s'\<lparr>owner := (owner s')\<lparr>ownerContract := address\<rparr>\<rparr>, b', now'))"

text \<open>
  The error of the \<open>n\<close>-th attempt ever made on the backend, \<open>None\<close> when that attempt
  succeeds: an attempt fails when the submission fails or the wait for it does.
\<close>

definition attemptError :: "Backend \<Rightarrow> nat \<Rightarrow> error option" where
  "attemptError b n =
     (case deployReply b n of
        (ref, tx, Some e) \<Rightarrow> Some e
      | (ref, tx, None) \<Rightarrow> snd (waitReply b tx))"

subsection \<open>Sequences of calls and observations\<close>

text \<open>
  A finite sequence of calls \<^verbatim>\<open>Add(amount_i, peer)\<close> for one peer: the states after each
  call, \<open>None\<close> if a call panics.
\<close>

fun AddTrace :: "'p pkg \<Rightarrow> 'p Swap \<Rightarrow> int64 list \<Rightarrow> 'p \<Rightarrow> 'p Swap list option" where
  "AddTrace G s [] peer = Some []"
| "AddTrace G s (amount # amounts) peer =
     (case Add G s amount peer of
        None \<Rightarrow> None
      | Some (err, s1) \<Rightarrow> map_option ((#) s1) (AddTrace G s1 amounts peer))"

text \<open>The cheques handed to the transport of a peer so far.\<close>

definition sentTo :: "'p Swap \<Rightarrow> 'p \<Rightarrow> cheque list" where
  "sentTo s peer = (case peers s peer of None \<Rightarrow> [] | Some sp \<Rightarrow> sent sp)"

text \<open>
  What a caller can observe of one call of \<^verbatim>\<open>Add\<close>: the error returned, the peer's
  balance in memory and the peer's balance in the store, both after the call.
\<close>

definition AddOutcome ::
  "'p pkg \<Rightarrow> 'p Swap \<Rightarrow> int64 \<Rightarrow> 'p \<Rightarrow> (error option \<times> int64 option \<times> store_val option) option" where
  "AddOutcome G s amount peer =
     map_option
       (\<lambda>(err, s'). (err, DAList.lookup (balances s') peer,
                     DAList.lookup (data (stateStore s')) (balanceKey G peer)))
       (Add G s amount peer)"

text \<open>The balances in memory after each call of a sequence.\<close>

definition balanceTrace :: "'p pkg \<Rightarrow> 'p Swap \<Rightarrow> int64 list \<Rightarrow> 'p \<Rightarrow> int64 list option" where
  "balanceTrace G s amounts peer =
     map_option (map (\<lambda>s'. balanceOf s' peer)) (AddTrace G s amounts peer)"

text \<open>The cheques sent to the peer by a sequence of calls, as (serial, amount, honey).\<close>

definition chequeTrace ::
  "'p pkg \<Rightarrow> 'p Swap \<Rightarrow> int64 list \<Rightarrow> 'p \<Rightarrow> (uint64 \<times> uint64 \<times> uint64) list option" where
  "chequeTrace G s amounts peer =
     map_option (\<lambda>tr. map (\<lambda>c. (Serial c, Amount c, Honey c)) (sentTo (last (s # tr)) peer))
       (AddTrace G s amounts peer)"

text \<open>
  The last cheque that \<^verbatim>\<open>createCheque\<close> builds on: the entry of the cache if there is
  one, else what the read of the store yields, which is nothing when the read fails.
\<close>

definition lastSentCheque :: "'p pkg \<Rightarrow> 'p Swap \<Rightarrow> 'p \<Rightarrow> cheque option" where
  "lastSentCheque G s peer =
     (case cheques s peer of
        Some c \<Rightarrow> c
      | None \<Rightarrow> fst (fst (Get_cheque (stateStore s) (sentChequeKey G peer) None)))"

text \<open>
  A list of cheques continues a last cheque with serial \<open>k\<close> and amount \<open>a\<close>: each serial
  is the previous one plus 1, each amount the previous one plus the price of the cheque's
  own honey.
\<close>

fun continues :: "(uint64 \<Rightarrow> uint64 \<times> error option) \<Rightarrow> uint64 \<Rightarrow> uint64 \<Rightarrow> cheque list \<Rightarrow> bool" where
  "continues price k a [] = True"
| "continues price k a (c # cs) =
     (Serial c = k + 1 \<and> Amount c = a + fst (price (Honey c)) \<and> snd (price (Honey c)) = None
      \<and> continues price (Serial c) (Amount c) cs)"

text \<open>Serial and amount of the last cheque, 0 when there is none.\<close>

definition lastSerial :: "cheque option \<Rightarrow> uint64" where
  "lastSerial l = (case l of None \<Rightarrow> 0 | Some c \<Rightarrow> Serial c)"

definition lastAmount :: "cheque option \<Rightarrow> uint64" where
  "lastAmount l = (case l of None \<Rightarrow> 0 | Some c \<Rightarrow> Amount c)"

text \<open>
  The store holds the balance \<open>b\<close> for the peer: the value under the peer's balance key,
  zero when there is no such key (which is how \<^verbatim>\<open>loadBalance\<close> reads a peer never seen).
\<close>

definition storedBalance :: "'p pkg \<Rightarrow> 'p Swap \<Rightarrow> 'p \<Rightarrow> int64 \<Rightarrow> bool" where
  "storedBalance G s peer b =
     (case DAList.lookup (data (stateStore s)) (balanceKey G peer) of
        None \<Rightarrow> b = 0
      | Some (VInt64 v) \<Rightarrow> b = v
      | Some (VCheque c) \<Rightarrow> False)"

text \<open>The state after a sequence of calls.\<close>

definition finalState :: "'p pkg \<Rightarrow> 'p Swap \<Rightarrow> int64 list \<Rightarrow> 'p \<Rightarrow> 'p Swap option" where
  "finalState G s amounts peer = map_option (\<lambda>tr. last (s # tr)) (AddTrace G s amounts peer)"

text \<open>Serial and amount of the cheque that \<^verbatim>\<open>createCheque\<close> returns, if it returns one.\<close>

definition createdCheque :: "'p pkg \<Rightarrow> 'p Swap \<Rightarrow> 'p \<Rightarrow> (uint64 \<times> uint64) option" where
  "createdCheque G s peer =
     (case createCheque G s peer of
        Some ((Some c, err), s') \<Rightarrow> Some (Serial c, Amount c)
      | _ \<Rightarrow> None)"

text \<open>
  The ledger agrees with the store on the balance \<open>b\<close> of a peer, and the store does not
  fail: the store holds \<open>b\<close>, and the cache holds \<open>b\<close> too or has no entry for the peer.
\<close>

definition inSync :: "'p pkg \<Rightarrow> 'p Swap \<Rightarrow> 'p \<Rightarrow> int64 \<Rightarrow> bool" where
  "inSync G s peer b \<longleftrightarrow>
     faults (stateStore s) = [] \<and> storedBalance G s peer b
     \<and> (DAList.lookup (balances s) peer = None \<or> DAList.lookup (balances s) peer = Some b)"

subsection \<open>A concrete node\<close>

text \<open>
  An instance of the parameters for concrete runs: an ID is represented by its own text,
  the price of honey is 1:1, signing succeeds, and both thresholds are 100, as in the
  scenario of the specification. \<open>swapT\<close> is a fresh node over an empty store that never
  fails, with the one peer \<open>''ab''\<close> registered.
\<close>

definition pkgT :: "string pkg" where
  "pkgT = \<lparr>ID_String = (\<lambda>p. p), HexID = Some, Sign = (\<lambda>c k. ([], None)),
     PublicKeyOf = (\<lambda>k. k), PubkeyToAddress = (\<lambda>k. 0), NewPriceOracle = (\<lambda>h. (h, None)),
     DefaultInitialDepositAmount = 0, DefaultPaymentThreshold = 100,
     DefaultDisconnectThreshold = 100, defaultCashInDelay = 0, deployRetries = 5,
     deployDelay = 1\<rparr>"

definition peerT :: Peer where
  "peerT = \<lparr>beneficiary = 1, sendReply = (\<lambda>c. None), sent = []\<rparr>"

definition storeT :: store where
  "storeT = \<lparr>data = DAList.empty, faults = []\<rparr>"

definition swapT :: "string Swap" where
  "swapT = (New pkgT storeT 1 2)\<lparr>peers := [''ab'' \<mapsto> peerT]\<rparr>"

text \<open>
  \<open>swapOver\<close>: the same node at the start of a session, the store holding the balance 150
  for the peer from an earlier session.
\<close>

definition swapOver :: "string Swap" where
  "swapOver =
     swapT\<lparr>stateStore := storeT\<lparr>data := DAList.update ''balance_ab'' (VInt64 150) DAList.empty\<rparr>\<rparr>"

text \<open>
  \<open>swapReadFault\<close>: as \<open>swapOver\<close>, but the next operation of the store fails.
  \<open>swapWriteFault\<close>: the peer's balance 10 is cached and stored, and the next operation of
  the store fails.
\<close>

definition swapReadFault :: "string Swap" where
  "swapReadFault = swapOver\<lparr>stateStore := (stateStore swapOver)\<lparr>faults := [Some (Err ''io'')]\<rparr>\<rparr>"

definition swapWriteFault :: "string Swap" where
  "swapWriteFault =
     swapT\<lparr>balances := DAList.update ''ab'' 10 DAList.empty,
           stateStore := \<lparr>data = DAList.update ''balance_ab'' (VInt64 10) DAList.empty,
                          faults = [Some (Err ''io'')]\<rparr>\<rparr>"

text \<open>
  \<open>swapNoPrice\<close>: the price conversion fails. \<open>swapLinkDown\<close>: the transport of the peer
  fails. \<open>swapDebt\<close>: the store holds the balance -101 for the peer.
\<close>

definition swapNoPrice :: "string Swap" where
  "swapNoPrice = swapT\<lparr>priceOracle := (\<lambda>h. (0, Some (Err ''no price'')))\<rparr>"

definition swapLinkDown :: "string Swap" where
  "swapLinkDown = swapT\<lparr>peers := [''ab'' \<mapsto> peerT\<lparr>sendReply := (\<lambda>c. Some (Err ''link down''))\<rparr>]\<rparr>"

definition swapDebt :: "string Swap" where
  "swapDebt =
     swapT\<lparr>stateStore := storeT\<lparr>data := DAList.update ''balance_ab'' (VInt64 (- 101)) DAList.empty\<rparr>\<rparr>"

text \<open>
  \<open>chequeFive\<close>: a cheque with serial 5 sent in an earlier session. \<open>swapChequeFault\<close>: the
  peer's balance -101 is cached, the store holds \<open>chequeFive\<close> as the peer's last cheque,
  and the next operation of the store fails. \<open>swapRestart\<close>: a fresh session over a store
  that holds \<open>chequeFive\<close> and whose third operation fails.
\<close>

definition chequeFive :: cheque where
  "chequeFive = zeroCheque\<lparr>Contract := 2, Beneficiary := 1, Serial := 5, Amount := 500, Honey := 100\<rparr>"

definition swapChequeFault :: "string Swap" where
  "swapChequeFault =
     swapT\<lparr>balances := DAList.update ''ab'' (- 101) DAList.empty,
           stateStore := \<lparr>data = DAList.update ''sent_cheque_ab'' (VCheque chequeFive) DAList.empty,
                          faults = [Some (Err ''io'')]\<rparr>\<rparr>"

definition swapRestart :: "string Swap" where
  "swapRestart =
     swapT\<lparr>stateStore := \<lparr>data = DAList.update ''sent_cheque_ab'' (VCheque chequeFive) DAList.empty,
                          faults = [None, None, Some (Err ''io'')]\<rparr>\<rparr>"

text \<open>
  \<open>swapPeers\<close>: the peers \<open>''ab''\<close> and \<open>''cd''\<close> have a cached balance, the store holds a
  balance for \<open>''ab''\<close> and for \<open>''ef''\<close>, and a last cheque for \<open>''ab''\<close>.
\<close>

definition swapPeers :: "string Swap" where
  "swapPeers =
     swapT\<lparr>balances := DAList.update ''cd'' 4 (DAList.update ''ab'' 3 DAList.empty),
           stateStore := storeT\<lparr>data :=
             DAList.update ''sent_cheque_ab'' (VCheque chequeFive)
               (DAList.update ''balance_ef'' (VInt64 7)
                 (DAList.update ''balance_ab'' (VInt64 3) DAList.empty))\<rparr>\<rparr>"

text \<open>
  \<open>backendT k\<close>: a backend on which the first \<open>k\<close> deployment attempts fail at the
  submission, each with an error of its own, and every later one succeeds with the
  address 42.
\<close>

definition backendT :: "nat \<Rightarrow> Backend" where
  "backendT k =
     \<lparr>deployReply = (\<lambda>n. if n < k then (None, n, Some (Err (replicate n CHR ''x'')))
                          else (Some 1, n, None)),
      waitReply = (\<lambda>tx. (42, None)),
      submitted = []\<rparr>"

text \<open>\<open>backendDown\<close>: a backend on which every attempt fails, each with an error of its own.\<close>

definition backendDown :: Backend where
  "backendDown =
     \<lparr>deployReply = (\<lambda>n. (None, n, Some (Err (replicate n CHR ''x'')))),
      waitReply = (\<lambda>tx. (42, None)),
      submitted = []\<rparr>"

text \<open>\<open>swapCached\<close>: the peer's balance -101 and the last cheque \<open>chequeFive\<close> are cached.\<close>

definition swapCached :: "string Swap" where
  "swapCached =
     swapT\<lparr>balances := DAList.update ''ab'' (- 101) DAList.empty,
           cheques := [''ab'' \<mapsto> Some chequeFive]\<rparr>"

text \<open>
  \<open>swapChequeWriteFault\<close>: a fresh session over an empty store whose fourth operation
  fails; in a call of \<^verbatim>\<open>Add\<close> that sends a cheque this is the write of the cheque.
\<close>

definition swapChequeWriteFault :: "string Swap" where
  "swapChequeWriteFault =
     swapT\<lparr>stateStore := storeT\<lparr>faults := [None, None, None, Some (Err ''io'')]\<rparr>\<rparr>"

text \<open>
  A second instance of the parameters, in which an ID is a number and \<open>HexID\<close> reads
  hexadecimal text the way \<^verbatim>\<open>enode.HexID\<close> does: with or without the prefix \<^verbatim>\<open>0x\<close>, the
  letters in either case, and a panic on any other character. (The IDs of the program
  have 32 bytes, and \<^verbatim>\<open>enode.HexID\<close> also panics on text of another length; the numbers
  here are short.) \<open>ID_String\<close> prints two digits in lower case.
\<close>

definition hexDigit :: "char \<Rightarrow> nat option" where
  "hexDigit c =
     (case map_of (zip ''0123456789abcdef'' [0, 1, 2, 3, 4, 5, 6, 7, 8, 9, 10, 11, 12, 13, 14, 15]) c of
        Some d \<Rightarrow> Some d
      | None \<Rightarrow> map_of (zip ''ABCDEF'' [10, 11, 12, 13, 14, 15]) c)"

fun parseHex :: "nat \<Rightarrow> string \<Rightarrow> nat option" where
  "parseHex acc [] = Some acc"
| "parseHex acc (c # cs) =
     (case hexDigit c of None \<Rightarrow> None | Some d \<Rightarrow> parseHex (16 * acc + d) cs)"

definition hexID :: "string \<Rightarrow> nat option" where
  "hexID str = parseHex 0 (if prefix ''0x'' str then drop 2 str else str)"

definition lowerHex :: "nat \<Rightarrow> string" where
  "lowerHex n = [''0123456789abcdef'' ! ((n div 16) mod 16), ''0123456789abcdef'' ! (n mod 16)]"

definition pkgHex :: "nat pkg" where
  "pkgHex = \<lparr>ID_String = lowerHex, HexID = hexID, Sign = (\<lambda>c k. ([], None)),
     PublicKeyOf = (\<lambda>k. k), PubkeyToAddress = (\<lambda>k. 0), NewPriceOracle = (\<lambda>h. (h, None)),
     DefaultInitialDepositAmount = 0, DefaultPaymentThreshold = 100,
     DefaultDisconnectThreshold = 100, defaultCashInDelay = 0, deployRetries = 5,
     deployDelay = 1\<rparr>"

text \<open>
  \<open>swapTwoSpellings\<close>: a fresh session (nothing cached) over a store that holds balances
  under the keys \<open>''balance_ab''\<close> and \<open>''balance_AB''\<close>, two spellings of the ID 171.
\<close>

definition swapTwoSpellings :: "nat Swap" where
  "swapTwoSpellings =
     New pkgHex
       \<lparr>data = DAList.update ''balance_AB'' (VInt64 7)
                 (DAList.update ''balance_ab'' (VInt64 3) DAList.empty),
        faults = []\<rparr> 1 2"

section \<open>Properties\<close>

lemmas fixture_defs = pkgT_def peerT_def storeT_def swapT_def New_def createOwner_def
  NewDefaultParams_def

lemmas run_defs = Add_def loadBalance_def updateBalance_def resetBalance_def sendCheque_def
  createCheque_def loadLastSentCheque_def signContent_def getPeer_def balanceOf_def
  Get_int64_def Get_cheque_def Put_def next_fault_def balanceKey_def sentChequeKey_def
  balancePrefix_def sentChequePrefix_def Send_def zeroCheque_def Balance_def

subsection \<open>The disconnect threshold\<close>

text \<open>
  C2. Let \<open>b\<close> be the peer's balance as \<^verbatim>\<open>Balance\<close> reads it: the cached value, or else
  the stored one, which is zero when the store has no entry for the peer (the read then
  reports not-found; any other error of the read is excluded). If \<open>b\<close> is at or above the
  disconnect threshold, then \<^verbatim>\<open>Add\<close> with any amount returns the error that names the
  peer and the threshold, the contents of the store are unchanged, the balance in memory
  is \<open>b\<close> (and when it was cached before the call, the whole state is unchanged), and
  \<^verbatim>\<open>Balance\<close> still reads \<open>b\<close>.
\<close>

theorem Add_over_disconnect_rejected:
  assumes "fst (Balance G s peer) = (b, e)"
    and "e = None \<or> e = Some ErrNotFound"
    and "disconnectThreshold s \<le>s b"
  shows "Add G s amount peer =
           Some (Some (ErrDisconnect (ID_String G peer) (disconnectThreshold s)),
                 snd (loadBalance G s peer))
       \<and> data (stateStore (snd (loadBalance G s peer))) = data (stateStore s)
       \<and> DAList.lookup (balances (snd (loadBalance G s peer))) peer = Some b
       \<and> (DAList.lookup (balances s) peer \<noteq> None \<longrightarrow> snd (loadBalance G s peer) = s)
       \<and> fst (Balance G (snd (loadBalance G s peer)) peer) = (b, None)"
  using assms
  by (auto simp: Add_def Balance_def loadBalance_def Get_int64_def next_fault_def balanceOf_def
      split: option.splits list.splits store_val.splits prod.splits)

theorem Add_over_disconnect_rejected_witness:
  "fst (Balance pkgT swapOver ''ab'') = (150, None)
   \<and> disconnectThreshold swapOver \<le>s 150
   \<and> AddOutcome pkgT swapOver 5 ''ab''
       = Some (Some (ErrDisconnect ''ab'' 100), Some 150, Some (VInt64 150))"
proof -
  have h1: "fst (Balance pkgT swapOver ''ab'') = (150, None)"
    by (simp add: swapOver_def fixture_defs run_defs)
  have h2: "disconnectThreshold swapOver \<le>s 150"
    by (simp add: swapOver_def fixture_defs)
  have h3: "data (stateStore swapOver) = DAList.update ''balance_ab'' (VInt64 150) DAList.empty"
    by (simp add: swapOver_def fixture_defs)
  have h4: "disconnectThreshold swapOver = 100"
    by (simp add: swapOver_def fixture_defs)
  from Add_over_disconnect_rejected [OF h1 _ h2, of 5] h1 h2 h3 h4 show ?thesis
    by (simp add: AddOutcome_def pkgT_def balanceKey_def balancePrefix_def)
qed

subsection \<open>What each function leaves unchanged\<close>

lemma next_fault_data [simp]: "data (snd (next_fault st)) = data st"
  by (simp add: next_fault_def split: list.splits)

lemma Get_int64_data [simp]: "data (snd (Get_int64 st k t)) = data st"
  by (simp add: Get_int64_def next_fault_def split: list.splits option.splits store_val.splits)

lemma Get_cheque_data [simp]: "data (snd (Get_cheque st k t)) = data st"
  by (simp add: Get_cheque_def next_fault_def split: list.splits option.splits store_val.splits)

lemma Put_data:
  "data (snd (Put st k v)) =
     (if fst (Put st k v) = None then DAList.update k v (data st) else data st)"
  by (simp add: Put_def next_fault_def split: list.splits option.splits)

lemma loadBalance_frame [simp]:
  "data (stateStore (snd (loadBalance G s p))) = data (stateStore s)"
  "disconnectThreshold (snd (loadBalance G s p)) = disconnectThreshold s"
  "paymentThreshold (snd (loadBalance G s p)) = paymentThreshold s"
  "priceOracle (snd (loadBalance G s p)) = priceOracle s"
  "cheques (snd (loadBalance G s p)) = cheques s"
  "peers (snd (loadBalance G s p)) = peers s"
  "owner (snd (loadBalance G s p)) = owner s"
  by (simp_all add: loadBalance_def split: option.splits prod.splits)
   (metis Get_int64_data snd_conv)

lemma updateBalance_result [simp]:
  "fst (fst (updateBalance G s p a)) = balanceOf s p + a"
  "DAList.lookup (balances (snd (updateBalance G s p a))) p = Some (balanceOf s p + a)"
  "balanceOf (snd (updateBalance G s p a)) p = balanceOf s p + a"
  by (simp_all add: updateBalance_def Let_def balanceOf_def split: prod.splits)

lemma updateBalance_frame [simp]:
  "disconnectThreshold (snd (updateBalance G s p a)) = disconnectThreshold s"
  "paymentThreshold (snd (updateBalance G s p a)) = paymentThreshold s"
  "priceOracle (snd (updateBalance G s p a)) = priceOracle s"
  "cheques (snd (updateBalance G s p a)) = cheques s"
  "peers (snd (updateBalance G s p a)) = peers s"
  "owner (snd (updateBalance G s p a)) = owner s"
  by (simp_all add: updateBalance_def Let_def split: prod.splits)

lemma updateBalance_data:
  "data (stateStore (snd (updateBalance G s p a))) =
     (if snd (fst (updateBalance G s p a)) = None
      then DAList.update (balanceKey G p) (VInt64 (balanceOf s p + a)) (data (stateStore s))
      else data (stateStore s))"
  by (simp add: updateBalance_def Let_def Put_def next_fault_def
      split: prod.splits list.splits option.splits)

lemma loadLastSentCheque_frame [simp]:
  "data (stateStore (snd (loadLastSentCheque G s p))) = data (stateStore s)"
  "disconnectThreshold (snd (loadLastSentCheque G s p)) = disconnectThreshold s"
  "paymentThreshold (snd (loadLastSentCheque G s p)) = paymentThreshold s"
  "priceOracle (snd (loadLastSentCheque G s p)) = priceOracle s"
  "balances (snd (loadLastSentCheque G s p)) = balances s"
  "peers (snd (loadLastSentCheque G s p)) = peers s"
  "owner (snd (loadLastSentCheque G s p)) = owner s"
  by (simp_all add: loadLastSentCheque_def split: option.splits prod.splits)
   (metis Get_cheque_data snd_conv)

lemma loadLastSentCheque_cache [simp]:
  "cheques (snd (loadLastSentCheque G s p)) p = Some (lastSentCheque G s p)"
  by (simp add: loadLastSentCheque_def lastSentCheque_def split: option.splits prod.splits)

text \<open>The three ways \<^verbatim>\<open>createCheque\<close> ends.\<close>

lemma createCheque_panics: "createCheque G s p = None \<longleftrightarrow> getPeer s p = None"
  by (simp add: createCheque_def Let_def split: option.splits prod.splits)

lemma createCheque_no_price:
  assumes "getPeer s p = Some sp" and "snd (priceOracle s (- balanceOf s p)) = Some e"
  shows "createCheque G s p = Some ((None, Some e), s)"
  using assms by (cases "priceOracle s (- balanceOf s p)") (simp add: createCheque_def Let_def)

lemma createCheque_price:
  assumes "getPeer s p = Some sp" and "priceOracle s (- balanceOf s p) = (amount, None)"
  shows "\<exists>c err. createCheque G s p = Some ((Some c, err), snd (loadLastSentCheque G s p))
     \<and> Serial c = lastSerial (lastSentCheque G s p) + 1
     \<and> Amount c = lastAmount (lastSentCheque G s p) + amount
     \<and> Honey c = - balanceOf s p"
  using assms
  by (simp add: createCheque_def Let_def lastSerial_def lastAmount_def case_prod_beta
      split: option.splits)

lemma createCheque_Some:
  assumes "createCheque G s p = Some ((Some c, err), s1)"
  shows "snd (priceOracle s (- balanceOf s p)) = None
     \<and> s1 = snd (loadLastSentCheque G s p)
     \<and> Serial c = lastSerial (lastSentCheque G s p) + 1
     \<and> Amount c = lastAmount (lastSentCheque G s p) + fst (priceOracle s (- balanceOf s p))
     \<and> Honey c = - balanceOf s p"
proof -
  from assms obtain sp where sp: "getPeer s p = Some sp"
    by (cases "getPeer s p") (simp_all add: createCheque_def)
  show ?thesis
  proof (cases "priceOracle s (- balanceOf s p)")
    case (Pair amount e)
    show ?thesis
    proof (cases e)
      case None
      with Pair createCheque_price [OF sp, of amount G] assms show ?thesis by auto
    next
      case (Some e')
      with Pair createCheque_no_price [OF sp, of e' G] assms show ?thesis by simp
    qed
  qed
qed

subsection \<open>Store errors in Add\<close>

text \<open>
  C7, as the code has it. When the read of the balance fails with an error other than
  not-found, \<^verbatim>\<open>Add\<close> returns that error and the contents of the store are unchanged.
  When the write of the new balance fails, \<^verbatim>\<open>Add\<close> returns that error and the contents
  of the store are unchanged, while the balance in memory already holds the old balance
  plus the amount: there is no rollback.
\<close>

theorem Add_store_error:
  "(loadBalance G s peer = (Some e, s1) \<and> e \<noteq> ErrNotFound \<longrightarrow>
      Add G s amount peer = Some (Some e, s1)
      \<and> data (stateStore s1) = data (stateStore s))
   \<and> (loadBalance G s peer = (e0, s1) \<and> (e0 = None \<or> e0 = Some ErrNotFound)
        \<and> \<not> disconnectThreshold s1 \<le>s balanceOf s1 peer
        \<and> updateBalance G s1 peer amount = ((nb, Some e), s2) \<longrightarrow>
      Add G s amount peer = Some (Some e, s2)
      \<and> data (stateStore s2) = data (stateStore s)
      \<and> DAList.lookup (balances s2) peer = Some (balanceOf s1 peer + amount))"
proof (intro conjI impI)
  assume h: "loadBalance G s peer = (Some e, s1) \<and> e \<noteq> ErrNotFound"
  then show "Add G s amount peer = Some (Some e, s1)"
    by (simp add: Add_def)
  from h have "s1 = snd (loadBalance G s peer)" by simp
  then show "data (stateStore s1) = data (stateStore s)" by simp
next
  assume h: "loadBalance G s peer = (e0, s1) \<and> (e0 = None \<or> e0 = Some ErrNotFound)
        \<and> \<not> disconnectThreshold s1 \<le>s balanceOf s1 peer
        \<and> updateBalance G s1 peer amount = ((nb, Some e), s2)"
  then show "Add G s amount peer = Some (Some e, s2)"
    by (auto simp: Add_def)
  from h have s1: "s1 = snd (loadBalance G s peer)"
    and s2: "s2 = snd (updateBalance G s1 peer amount)"
    and err: "snd (fst (updateBalance G s1 peer amount)) = Some e" by simp_all
  from err show "data (stateStore s2) = data (stateStore s)"
    by (simp add: s2 updateBalance_data) (simp add: s1)
  show "DAList.lookup (balances s2) peer = Some (balanceOf s1 peer + amount)"
    by (simp add: s2)
qed

theorem Add_store_error_witness:
  "AddOutcome pkgT swapReadFault 5 ''ab'' = Some (Some (Err ''io''), Some 0, Some (VInt64 150))
   \<and> data (stateStore swapReadFault) = DAList.update ''balance_ab'' (VInt64 150) DAList.empty
   \<and> AddOutcome pkgT swapWriteFault 5 ''ab'' = Some (Some (Err ''io''), Some 15, Some (VInt64 10))
   \<and> data (stateStore swapWriteFault) = DAList.update ''balance_ab'' (VInt64 10) DAList.empty"
proof -
  let ?r1 = "snd (loadBalance pkgT swapReadFault ''ab'')"
  have r: "loadBalance pkgT swapReadFault ''ab'' = (Some (Err ''io''), ?r1) \<and> Err ''io'' \<noteq> ErrNotFound"
    by (simp add: swapReadFault_def swapOver_def fixture_defs run_defs)
  have r1: "DAList.lookup (balances ?r1) ''ab'' = Some 0"
    by (simp add: swapReadFault_def swapOver_def fixture_defs run_defs)
  have rd: "data (stateStore swapReadFault) = DAList.update ''balance_ab'' (VInt64 150) DAList.empty"
    by (simp add: swapReadFault_def swapOver_def fixture_defs)
  let ?w1 = "snd (loadBalance pkgT swapWriteFault ''ab'')"
  let ?w2 = "snd (updateBalance pkgT ?w1 ''ab'' 5)"
  have w: "loadBalance pkgT swapWriteFault ''ab'' = (None, ?w1) \<and> (None = None \<or> None = Some ErrNotFound)
      \<and> \<not> disconnectThreshold ?w1 \<le>s balanceOf ?w1 ''ab''
      \<and> updateBalance pkgT ?w1 ''ab'' 5 = ((15, Some (Err ''io'')), ?w2)"
    by (simp add: swapWriteFault_def fixture_defs run_defs prod_eq_iff)
  have w1: "balanceOf ?w1 ''ab'' = 10"
    by (simp add: swapWriteFault_def fixture_defs run_defs)
  have wd: "data (stateStore swapWriteFault) = DAList.update ''balance_ab'' (VInt64 10) DAList.empty"
    by (simp add: swapWriteFault_def fixture_defs)
  have key: "balanceKey pkgT ''ab'' = ''balance_ab''"
    by (simp add: pkgT_def balanceKey_def balancePrefix_def)
  from Add_store_error [of pkgT swapReadFault "''ab''" "Err ''io''" ?r1 5] r
  have "Add pkgT swapReadFault 5 ''ab'' = Some (Some (Err ''io''), ?r1)
      \<and> data (stateStore ?r1) = data (stateStore swapReadFault)"
    by blast
  with r1 rd key
  have A: "AddOutcome pkgT swapReadFault 5 ''ab'' = Some (Some (Err ''io''), Some 0, Some (VInt64 150))"
    by (simp add: AddOutcome_def)
  from Add_store_error [of pkgT swapWriteFault "''ab''" "Err ''io''" ?w1 5 None 15 ?w2] w
  have "Add pkgT swapWriteFault 5 ''ab'' = Some (Some (Err ''io''), ?w2)
      \<and> data (stateStore ?w2) = data (stateStore swapWriteFault)
      \<and> DAList.lookup (balances ?w2) ''ab'' = Some (balanceOf ?w1 ''ab'' + 5)"
    by blast
  with w1 wd key
  have B: "AddOutcome pkgT swapWriteFault 5 ''ab'' = Some (Some (Err ''io''), Some 15, Some (VInt64 10))"
    by (simp add: AddOutcome_def)
  from A B rd wd show ?thesis by simp
qed

text \<open>
  The claim C7 as stated fails: after the failed write the balance in memory is 15, not
  the 10 it was before the call.
\<close>

theorem Add_write_error_changes_memory:
  "DAList.lookup (balances swapWriteFault) ''ab'' = Some 10
   \<and> AddOutcome pkgT swapWriteFault 5 ''ab'' = Some (Some (Err ''io''), Some 15, Some (VInt64 10))"
  by (simp add: AddOutcome_def swapWriteFault_def fixture_defs run_defs word_sle_eq)

subsection \<open>The effect of sendCheque\<close>

lemma createCheque_state:
  assumes "createCheque G s p = Some (x, s1)"
  shows "s1 = s \<or> s1 = snd (loadLastSentCheque G s p)"
  using assms
  by (auto simp: createCheque_def Let_def case_prod_beta split: option.splits)

lemma createCheque_frame:
  assumes "createCheque G s p = Some (x, s1)"
  shows "balances s1 = balances s" and "peers s1 = peers s"
    and "data (stateStore s1) = data (stateStore s)"
    and "disconnectThreshold s1 = disconnectThreshold s"
    and "paymentThreshold s1 = paymentThreshold s"
    and "priceOracle s1 = priceOracle s"
  using createCheque_state [OF assms] by auto

lemma resetBalance_frame [simp]:
  "disconnectThreshold (resetBalance G s p a) = disconnectThreshold s"
  "paymentThreshold (resetBalance G s p a) = paymentThreshold s"
  "priceOracle (resetBalance G s p a) = priceOracle s"
  "cheques (resetBalance G s p a) = cheques s"
  "peers (resetBalance G s p a) = peers s"
  "balanceOf (resetBalance G s p a) p = balanceOf s p + a"
  "DAList.lookup (balances (resetBalance G s p a)) p = Some (balanceOf s p + a)"
  by (simp_all add: resetBalance_def)

text \<open>
  When \<^verbatim>\<open>sendCheque\<close> returns, either it stopped before the cheque was stored (at the
  price, the signature or the write of the cheque), with an error and with balances,
  peers and the contents of the store as they were, or it went through: the cheque is the
  new last cheque, it was handed to the transport, and its amount was added to the
  balance.
\<close>

lemma sendCheque_effect:
  assumes "sendCheque G s p = Some (r, s')"
  shows "(r \<noteq> None \<and> balances s' = balances s \<and> peers s' = peers s
           \<and> data (stateStore s') = data (stateStore s))
       \<or> (\<exists>c s1. createCheque G s p = Some ((Some c, None), s1)
             \<and> cheques s' p = Some (Some c)
             \<and> sentTo s' p = sentTo s p @ [c]
             \<and> DAList.lookup (balances s') p = Some (balanceOf s p + Amount c))"
proof (cases "createCheque G s p")
  case None
  with assms show ?thesis by (simp add: sendCheque_def)
next
  case (Some x)
  then obtain co eo s1 where x: "createCheque G s p = Some ((co, eo), s1)"
    by (cases x) auto
  note fr = createCheque_frame [OF x]
  show ?thesis
  proof (cases eo)
    case (Some e)
    with assms x fr show ?thesis by (auto simp: sendCheque_def split: option.splits)
  next
    case None
    show ?thesis
    proof (cases co)
      case None
      with assms x \<open>eo = None\<close> show ?thesis by (simp add: sendCheque_def)
    next
      case (Some c)
      let ?s2 = "s1\<lparr>cheques := (cheques s1)(p \<mapsto> Some c)\<rparr>"
      obtain pe st' where put: "Put (stateStore ?s2) (sentChequeKey G p) (VCheque c) = (pe, st')"
        by (cases "Put (stateStore ?s2) (sentChequeKey G p) (VCheque c)") auto
      show ?thesis
      proof (cases pe)
        case (Some e)
        from Put_data [of "stateStore ?s2" "sentChequeKey G p" "VCheque c"] put Some
        have "data st' = data (stateStore s1)" by simp
        with assms x \<open>eo = None\<close> \<open>co = Some c\<close> put Some fr show ?thesis
          by (auto simp: sendCheque_def Let_def)
      next
        case None
        let ?s3 = "resetBalance G (?s2\<lparr>stateStore := st'\<rparr>) p (Amount c)"
        have b: "balanceOf (?s2\<lparr>stateStore := st'\<rparr>) p = balanceOf s p"
          using fr by (simp add: balanceOf_def)
        from assms x \<open>eo = None\<close> \<open>co = Some c\<close> put None
        have "\<exists>sp. peers s p = Some sp \<and> r = fst (Send sp c)
            \<and> s' = ?s3\<lparr>peers := (peers ?s3)(p \<mapsto> snd (Send sp c))\<rparr>"
          using fr
          by (auto simp: sendCheque_def Let_def getPeer_def split: option.splits prod.splits)
        then obtain sp where sp: "peers s p = Some sp"
          and s': "s' = ?s3\<lparr>peers := (peers ?s3)(p \<mapsto> snd (Send sp c))\<rparr>" by blast
        have "cheques s' p = Some (Some c)" by (simp add: s')
        moreover have "sentTo s' p = sentTo s p @ [c]"
          by (simp add: s' sentTo_def sp Send_def)
        moreover have "DAList.lookup (balances s') p = Some (balanceOf s p + Amount c)"
          using b by (simp add: s')
        ultimately show ?thesis using x \<open>eo = None\<close> \<open>co = Some c\<close> by blast
      qed
    qed
  qed
qed

lemma sendCheque_frame:
  assumes "sendCheque G s p = Some (r, s')"
  shows "disconnectThreshold s' = disconnectThreshold s"
    and "paymentThreshold s' = paymentThreshold s"
    and "priceOracle s' = priceOracle s"
proof -
  have "disconnectThreshold s' = disconnectThreshold s \<and> paymentThreshold s' = paymentThreshold s
      \<and> priceOracle s' = priceOracle s"
  proof (cases "createCheque G s p")
    case None
    with assms show ?thesis by (simp add: sendCheque_def)
  next
    case (Some x)
    then obtain co eo s1 where x: "createCheque G s p = Some ((co, eo), s1)"
      by (cases x) auto
    note fr = createCheque_frame [OF x]
    from assms x fr show ?thesis
      by (auto simp: sendCheque_def Let_def split: option.splits prod.splits)
  qed
  then show "disconnectThreshold s' = disconnectThreshold s"
    and "paymentThreshold s' = paymentThreshold s"
    and "priceOracle s' = priceOracle s" by simp_all
qed

subsection \<open>Errors of the cheque path\<close>

lemma Add_continues:
  assumes "fst (loadBalance G s peer) = None \<or> fst (loadBalance G s peer) = Some ErrNotFound"
    and "\<not> disconnectThreshold s \<le>s balanceOf (snd (loadBalance G s peer)) peer"
    and "snd (fst (updateBalance G (snd (loadBalance G s peer)) peer amount)) = None"
  shows "Add G s amount peer =
     (if balanceOf (snd (loadBalance G s peer)) peer + amount \<le>s - paymentThreshold s
      then sendCheque G (snd (updateBalance G (snd (loadBalance G s peer)) peer amount)) peer
      else Some (None, snd (updateBalance G (snd (loadBalance G s peer)) peer amount)))"
proof -
  obtain e0 s1 where l: "loadBalance G s peer = (e0, s1)"
    by (cases "loadBalance G s peer") auto
  obtain nb ue s2 where u: "updateBalance G s1 peer amount = ((nb, ue), s2)"
    by (cases "updateBalance G s1 peer amount") auto
  have s1: "s1 = snd (loadBalance G s peer)" using l by simp
  have nb: "nb = balanceOf s1 peer + amount"
    using u updateBalance_result(1) [of G s1 peer amount] by simp
  have s2: "s2 = snd (updateBalance G s1 peer amount)" using u by simp
  have t: "disconnectThreshold s1 = disconnectThreshold s" "paymentThreshold s2 = paymentThreshold s"
    by (simp_all add: s1 s2)
  from assms l u show ?thesis
    by (auto simp: Add_def nb t)
qed

text \<open>
  The claim C5 as stated fails: the price conversion fails, and \<^verbatim>\<open>Add\<close> returns that
  error, not nil. The balance -101 stays, in memory and in the store.
\<close>

theorem Add_propagates_price_error:
  "AddOutcome pkgT swapNoPrice (- 101) ''ab''
     = Some (Some (Err ''no price''), Some (- 101), Some (VInt64 (- 101)))"
  by (simp add: AddOutcome_def swapNoPrice_def fixture_defs run_defs word_sle_eq)

subsection \<open>When the two thresholds are checked\<close>

lemma sless_sle_trans_not:
  fixes a b c :: int64
  assumes "a <s b" and "b \<le>s c"
  shows "\<not> c \<le>s a"
  using assms by (simp add: word_sle_eq word_sless_alt)

lemma Add_rejects:
  assumes "fst (loadBalance G s peer) = None \<or> fst (loadBalance G s peer) = Some ErrNotFound"
    and "disconnectThreshold s \<le>s balanceOf (snd (loadBalance G s peer)) peer"
  shows "Add G s amount peer =
     Some (Some (ErrDisconnect (ID_String G peer) (disconnectThreshold s)),
           snd (loadBalance G s peer))"
proof -
  obtain e0 s1 where l: "loadBalance G s peer = (e0, s1)"
    by (cases "loadBalance G s peer") auto
  have t: "disconnectThreshold s1 = disconnectThreshold s"
    using l loadBalance_frame(2) [of G s peer] by simp
  from assms l show ?thesis by (auto simp: Add_def t)
qed

lemma loadBalance_cached:
  assumes "DAList.lookup (balances s) peer = Some b"
  shows "loadBalance G s peer = (None, s)"
  using assms by (simp add: loadBalance_def)

text \<open>
  C3. Let \<open>b\<close> be the balance that \<^verbatim>\<open>Add\<close> finds after loading it, before the amount is
  applied. (1) If \<open>b\<close> is at or above the disconnect threshold, \<^verbatim>\<open>Add\<close> is rejected,
  whatever the amount. (2) Otherwise, if the write of the new balance succeeds, the balance
  becomes \<open>b + amount\<close> and it is this new value that decides whether \<^verbatim>\<open>sendCheque\<close> runs.
  (3) In particular, when \<open>b\<close> is below the disconnect threshold and \<open>b + amount\<close> is at or
  above it (and the negated payment threshold lies below the disconnect threshold), this
  \<^verbatim>\<open>Add\<close> returns nil, and the following \<^verbatim>\<open>Add\<close>, with any amount, is rejected and
  changes nothing.
\<close>

theorem threshold_timing:
  fixes G :: "'p pkg" and s :: "'p Swap" and peer :: "'p" and amount :: int64
  defines "s1 \<equiv> snd (loadBalance G s peer)"
  defines "s2 \<equiv> snd (updateBalance G s1 peer amount)"
  assumes load: "fst (loadBalance G s peer) = None \<or> fst (loadBalance G s peer) = Some ErrNotFound"
  shows "(disconnectThreshold s \<le>s balanceOf s1 peer \<longrightarrow>
            Add G s amount peer =
              Some (Some (ErrDisconnect (ID_String G peer) (disconnectThreshold s)), s1))
     \<and> (\<not> disconnectThreshold s \<le>s balanceOf s1 peer
          \<and> snd (fst (updateBalance G s1 peer amount)) = None \<longrightarrow>
            balanceOf s2 peer = balanceOf s1 peer + amount
            \<and> Add G s amount peer =
                (if balanceOf s1 peer + amount \<le>s - paymentThreshold s
                 then sendCheque G s2 peer else Some (None, s2)))
     \<and> (\<not> disconnectThreshold s \<le>s balanceOf s1 peer
          \<and> snd (fst (updateBalance G s1 peer amount)) = None
          \<and> disconnectThreshold s \<le>s balanceOf s1 peer + amount
          \<and> - paymentThreshold s <s disconnectThreshold s \<longrightarrow>
            Add G s amount peer = Some (None, s2)
            \<and> (\<forall>amount'. Add G s2 amount' peer =
                  Some (Some (ErrDisconnect (ID_String G peer) (disconnectThreshold s)), s2)))"
proof (intro conjI impI)
  assume "disconnectThreshold s \<le>s balanceOf s1 peer"
  then show "Add G s amount peer =
      Some (Some (ErrDisconnect (ID_String G peer) (disconnectThreshold s)), s1)"
    using Add_rejects [of G s peer amount] load by (simp add: s1_def)
next
  assume h: "\<not> disconnectThreshold s \<le>s balanceOf s1 peer
      \<and> snd (fst (updateBalance G s1 peer amount)) = None"
  show "balanceOf s2 peer = balanceOf s1 peer + amount" by (simp add: s2_def)
  from h show "Add G s amount peer =
      (if balanceOf s1 peer + amount \<le>s - paymentThreshold s
       then sendCheque G s2 peer else Some (None, s2))"
    using Add_continues [of G s peer amount] load by (simp add: s1_def s2_def)
next
  assume h: "\<not> disconnectThreshold s \<le>s balanceOf s1 peer
      \<and> snd (fst (updateBalance G s1 peer amount)) = None
      \<and> disconnectThreshold s \<le>s balanceOf s1 peer + amount
      \<and> - paymentThreshold s <s disconnectThreshold s"
  then have nopay: "\<not> balanceOf s1 peer + amount \<le>s - paymentThreshold s"
    using sless_sle_trans_not by blast
  with h show "Add G s amount peer = Some (None, s2)"
    using Add_continues [of G s peer amount] load by (simp add: s1_def s2_def)
  show "\<forall>amount'. Add G s2 amount' peer =
      Some (Some (ErrDisconnect (ID_String G peer) (disconnectThreshold s)), s2)"
  proof
    fix amount'
    have c: "DAList.lookup (balances s2) peer = Some (balanceOf s1 peer + amount)"
      by (simp add: s2_def)
    have l: "loadBalance G s2 peer = (None, s2)"
      by (rule loadBalance_cached [OF c])
    have t: "disconnectThreshold s2 = disconnectThreshold s"
      by (simp add: s2_def s1_def)
    have b: "balanceOf s2 peer = balanceOf s1 peer + amount" by (simp add: s2_def)
    from Add_rejects [of G s2 peer amount'] l t b h
    show "Add G s2 amount' peer =
        Some (Some (ErrDisconnect (ID_String G peer) (disconnectThreshold s)), s2)"
      by simp
  qed
qed

theorem threshold_timing_witness:
  "AddOutcome pkgT swapOver 9 ''ab'' = Some (Some (ErrDisconnect ''ab'' 100), Some 150, Some (VInt64 150))
   \<and> AddOutcome pkgT swapDebt 250 ''ab'' = Some (None, Some 149, Some (VInt64 149))
   \<and> AddOutcome pkgT (snd (updateBalance pkgT (snd (loadBalance pkgT swapDebt ''ab'')) ''ab'' 250)) 7 ''ab''
       = Some (Some (ErrDisconnect ''ab'' 100), Some 149, Some (VInt64 149))"
proof -
  have key: "balanceKey pkgT ''ab'' = ''balance_ab''" "ID_String pkgT ''ab'' = ''ab''"
    by (simp_all add: pkgT_def balanceKey_def balancePrefix_def)
  let ?o1 = "snd (loadBalance pkgT swapOver ''ab'')"
  have oload: "fst (loadBalance pkgT swapOver ''ab'') = None
      \<or> fst (loadBalance pkgT swapOver ''ab'') = Some ErrNotFound"
    by (simp add: swapOver_def fixture_defs run_defs)
  have oover: "disconnectThreshold swapOver \<le>s balanceOf ?o1 ''ab''"
    by (simp add: swapOver_def fixture_defs run_defs word_sle_eq)
  have oobs: "disconnectThreshold swapOver = 100 \<and> DAList.lookup (balances ?o1) ''ab'' = Some 150
      \<and> DAList.lookup (data (stateStore ?o1)) ''balance_ab'' = Some (VInt64 150)"
    by (simp add: swapOver_def fixture_defs run_defs)
  from threshold_timing [OF oload, of 9] oover
  have "Add pkgT swapOver 9 ''ab'' =
      Some (Some (ErrDisconnect (ID_String pkgT ''ab'') (disconnectThreshold swapOver)), ?o1)"
    by blast
  with oobs key
  have A: "AddOutcome pkgT swapOver 9 ''ab''
      = Some (Some (ErrDisconnect ''ab'' 100), Some 150, Some (VInt64 150))"
    by (simp add: AddOutcome_def)
  let ?s1 = "snd (loadBalance pkgT swapDebt ''ab'')"
  let ?s2 = "snd (updateBalance pkgT ?s1 ''ab'' 250)"
  have load: "fst (loadBalance pkgT swapDebt ''ab'') = None
      \<or> fst (loadBalance pkgT swapDebt ''ab'') = Some ErrNotFound"
    by (simp add: swapDebt_def fixture_defs run_defs)
  have hyp: "\<not> disconnectThreshold swapDebt \<le>s balanceOf ?s1 ''ab''
      \<and> snd (fst (updateBalance pkgT ?s1 ''ab'' 250)) = None
      \<and> disconnectThreshold swapDebt \<le>s balanceOf ?s1 ''ab'' + 250
      \<and> - paymentThreshold swapDebt <s disconnectThreshold swapDebt"
    by (simp add: swapDebt_def fixture_defs run_defs word_sle_eq word_sless_alt)
  have obs: "disconnectThreshold swapDebt = 100 \<and> DAList.lookup (balances ?s2) ''ab'' = Some 149
      \<and> DAList.lookup (data (stateStore ?s2)) ''balance_ab'' = Some (VInt64 149)"
    by (simp add: swapDebt_def fixture_defs run_defs)
  from threshold_timing [OF load, of 250] hyp
  have B: "Add pkgT swapDebt 250 ''ab'' = Some (None, ?s2)
      \<and> Add pkgT ?s2 7 ''ab'' =
          Some (Some (ErrDisconnect (ID_String pkgT ''ab'') (disconnectThreshold swapDebt)), ?s2)"
    by blast
  with obs key
  have "AddOutcome pkgT swapDebt 250 ''ab'' = Some (None, Some 149, Some (VInt64 149))
      \<and> AddOutcome pkgT ?s2 7 ''ab''
          = Some (Some (ErrDisconnect ''ab'' 100), Some 149, Some (VInt64 149))"
    by (simp add: AddOutcome_def)
  with A show ?thesis by blast
qed

subsection \<open>Store errors while loading the last cheque\<close>

lemma lastSentCheque_fault:
  assumes "cheques s peer = None" and "faults (stateStore s) = Some e # fs"
  shows "lastSentCheque G s peer = None"
  using assms by (simp add: lastSentCheque_def Get_cheque_def next_fault_def)

text \<open>
  C10. The peer's last cheque is not cached, and the read of the store fails with an
  error \<open>e\<close>, whichever it is (the next operation of the store fails). If the peer is
  registered and the price conversion succeeds, \<^verbatim>\<open>createCheque\<close> does not abort: it returns
  a cheque with serial 1 whose amount is the converted amount alone, whatever the store
  holds, and leaves nil cached as the peer's last cheque.
\<close>

theorem createCheque_ignores_store_error:
  assumes "cheques s peer = None"
    and "faults (stateStore s) = Some e # fs"
    and "getPeer s peer = Some sp"
    and "priceOracle s (- balanceOf s peer) = (amount, None)"
  shows "\<exists>c err s'. createCheque G s peer = Some ((Some c, err), s')
     \<and> Serial c = 1 \<and> Amount c = amount \<and> cheques s' peer = Some None
     \<and> data (stateStore s') = data (stateStore s)"
proof -
  have l: "lastSentCheque G s peer = None"
    by (rule lastSentCheque_fault [OF assms(1,2)])
  from createCheque_price [OF assms(3,4), of G] l
  obtain c err where c: "createCheque G s peer = Some ((Some c, err), snd (loadLastSentCheque G s peer))"
    and "Serial c = 1" and "Amount c = amount"
    by (auto simp: lastSerial_def lastAmount_def)
  moreover have "cheques (snd (loadLastSentCheque G s peer)) peer = Some None"
    using l by simp
  moreover have "data (stateStore (snd (loadLastSentCheque G s peer))) = data (stateStore s)"
    by simp
  ultimately show ?thesis by blast
qed

theorem createCheque_ignores_store_error_witness:
  "DAList.lookup (data (stateStore swapChequeFault)) ''sent_cheque_ab'' = Some (VCheque chequeFive)
   \<and> Serial chequeFive = 5
   \<and> createdCheque pkgT swapChequeFault ''ab'' = Some (1, 101)"
proof -
  have h1: "cheques swapChequeFault ''ab'' = None"
    by (simp add: swapChequeFault_def fixture_defs)
  have h2: "faults (stateStore swapChequeFault) = Some (Err ''io'') # []"
    by (simp add: swapChequeFault_def fixture_defs)
  have h3: "getPeer swapChequeFault ''ab'' = Some peerT"
    by (simp add: swapChequeFault_def fixture_defs getPeer_def)
  have h4: "priceOracle swapChequeFault (- balanceOf swapChequeFault ''ab'') = (101, None)"
    by (simp add: swapChequeFault_def fixture_defs balanceOf_def)
  have d: "DAList.lookup (data (stateStore swapChequeFault)) ''sent_cheque_ab'' = Some (VCheque chequeFive)"
    by (simp add: swapChequeFault_def fixture_defs)
  have five: "Serial chequeFive = 5" by (simp add: chequeFive_def)
  from createCheque_ignores_store_error [OF h1 h2 h3 h4, of pkgT]
  have "createdCheque pkgT swapChequeFault ''ab'' = Some (1, 101)"
    by (auto simp: createdCheque_def)
  with d five show ?thesis by simp
qed

subsection \<open>BalancePeers\<close>

lemma keyToID_balanceKey:
  assumes "\<forall>p. HexID G (ID_String G p) = Some p"
  shows "keyToID G (balanceKey G p) balancePrefix = Some p"
  using assms by (simp add: keyToID_def balanceKey_def)

lemma appendStorePeers_balanceKeys:
  assumes "\<forall>p. HexID G (ID_String G p) = Some p"
  shows "appendStorePeers G known acc (map (balanceKey G) ps)
     = Some (acc @ filter (\<lambda>p. p \<notin> known) ps)"
proof (induction ps arbitrary: acc)
  case Nil
  show ?case by simp
next
  case (Cons p ps)
  show ?case by (simp add: keyToID_balanceKey [OF assms] Cons.IH)
qed

lemma balanceKey_inj:
  assumes "\<forall>p. HexID G (ID_String G p) = Some p"
  shows "inj (balanceKey G)"
proof (rule injI)
  fix p q assume "balanceKey G p = balanceKey G q"
  then have "keyToID G (balanceKey G p) balancePrefix = keyToID G (balanceKey G q) balancePrefix"
    by simp
  then show "p = q" by (simp add: keyToID_balanceKey [OF assms])
qed

lemma dom_lookup: "dom (DAList.lookup al) = fst ` set (DAList.impl_of al)"
  by (simp add: DAList.lookup.rep_eq dom_map_of_conv_image_fst)

text \<open>
  C9, as the code has it. The functions of \<^verbatim>\<open>enode.ID\<close> are parameters, of which the
  theorem needs that \<^verbatim>\<open>HexID\<close> reads back what \<^verbatim>\<open>String\<close> prints. The keys of the store
  under the balance prefix are balance keys, that is, keys that \<^verbatim>\<open>balanceKey\<close> builds (all
  that \<^verbatim>\<open>updateBalance\<close> ever writes). Then, for every state of the cache, when the store
  answers the enumeration of its keys, \<^verbatim>\<open>BalancePeers\<close> returns without error a list with
  no peer twice, whose elements are exactly the peers in the cache and the peers with a
  balance key in the store. Nothing is said about other keys under the prefix.
\<close>

theorem BalancePeers_union:
  assumes roundtrip: "\<forall>p. HexID G (ID_String G p) = Some p"
    and keys: "\<forall>k \<in> dom (DAList.lookup (data (stateStore s))).
                 prefix balancePrefix k \<longrightarrow> k \<in> range (balanceKey G)"
    and answers: "fst (next_fault (stateStore s)) = None"
  shows "\<exists>peerList s'. BalancePeers G s = Some ((peerList, None), s')
     \<and> distinct peerList
     \<and> set peerList = dom (DAList.lookup (balances s))
          \<union> {p. balanceKey G p \<in> dom (DAList.lookup (data (stateStore s)))}"
proof -
  let ?peers0 = "map fst (DAList.impl_of (balances s))"
  let ?ks = "filter (prefix balancePrefix) (map fst (DAList.impl_of (data (stateStore s))))"
  obtain st' where nf: "next_fault (stateStore s) = (None, st')"
    using answers by (cases "next_fault (stateStore s)") auto
  have d: "data st' = data (stateStore s)"
    using next_fault_data [of "stateStore s"] nf by simp
  have K: "Keys (stateStore s) balancePrefix = ((?ks, None), st')"
    by (simp add: Keys_def nf d)
  have "\<forall>k \<in> set ?ks. \<exists>p. k = balanceKey G p"
    using keys by (auto simp: dom_lookup)
  then obtain ps where ps: "?ks = map (balanceKey G) ps"
    using ex_map_conv [of ?ks "balanceKey G"] by auto
  have "distinct ?ks" by (simp add: distinct_map_filter)
  then have dps: "distinct ps" by (simp add: ps distinct_map)
  have sps: "set ps = {p. balanceKey G p \<in> dom (DAList.lookup (data (stateStore s)))}"
  proof (rule set_eqI)
    fix p
    have "p \<in> set ps \<longleftrightarrow> balanceKey G p \<in> set ?ks"
      using balanceKey_inj [OF roundtrip] by (simp add: ps inj_image_mem_iff)
    also have "\<dots> \<longleftrightarrow> balanceKey G p \<in> dom (DAList.lookup (data (stateStore s)))"
      by (auto simp: dom_lookup balanceKey_def)
    finally show "p \<in> set ps \<longleftrightarrow> p \<in> {p. balanceKey G p \<in> dom (DAList.lookup (data (stateStore s)))}"
      by simp
  qed
  let ?res = "?peers0 @ filter (\<lambda>p. p \<notin> set ?peers0) ps"
  have B: "BalancePeers G s = Some ((?res, None), s\<lparr>stateStore := st'\<rparr>)"
    by (simp add: BalancePeers_def Let_def K ps appendStorePeers_balanceKeys [OF roundtrip])
  have "distinct ?res" using dps by auto
  moreover have "set ?res = dom (DAList.lookup (balances s))
      \<union> {p. balanceKey G p \<in> dom (DAList.lookup (data (stateStore s)))}"
    using sps by (auto simp: dom_lookup)
  ultimately show ?thesis using B by blast
qed

theorem BalancePeers_union_witness:
  "\<exists>peerList s'. BalancePeers pkgT swapPeers = Some ((peerList, None), s')
     \<and> distinct peerList \<and> set peerList = {''ab'', ''cd'', ''ef''}"
proof -
  have bk: "\<And>p. balanceKey pkgT p = ''balance_'' @ p"
    by (simp add: balanceKey_def balancePrefix_def pkgT_def)
  have roundtrip: "\<forall>p. HexID pkgT (ID_String pkgT p) = Some p"
    by (simp add: pkgT_def)
  have dd: "dom (DAList.lookup (data (stateStore swapPeers)))
      = {''balance_ab'', ''balance_ef'', ''sent_cheque_ab''}"
    by (auto simp: swapPeers_def fixture_defs DAList.lookup_update dom_def split: if_splits)
  have db: "dom (DAList.lookup (balances swapPeers)) = {''ab'', ''cd''}"
    by (auto simp: swapPeers_def fixture_defs DAList.lookup_update dom_def split: if_splits)
  have r: "''balance_ab'' \<in> range (balanceKey pkgT)" "''balance_ef'' \<in> range (balanceKey pkgT)"
    using bk [of "''ab''"] bk [of "''ef''"] by (metis append_Cons append_Nil rangeI)+
  have keys: "\<forall>k \<in> dom (DAList.lookup (data (stateStore swapPeers))).
      prefix balancePrefix k \<longrightarrow> k \<in> range (balanceKey pkgT)"
    using r by (simp add: dd balancePrefix_def)
  have answers: "fst (next_fault (stateStore swapPeers)) = None"
    by (simp add: swapPeers_def fixture_defs next_fault_def)
  have u: "dom (DAList.lookup (balances swapPeers))
      \<union> {p. balanceKey pkgT p \<in> dom (DAList.lookup (data (stateStore swapPeers)))}
      = {''ab'', ''cd'', ''ef''}"
    by (auto simp: dd db bk)
  from BalancePeers_union [OF roundtrip keys answers] u show ?thesis by simp
qed

text \<open>The list itself, in the order of the model.\<close>

lemma BalancePeers_example:
  "map_option fst (BalancePeers pkgT swapPeers) = Some ([''ab'', ''cd'', ''ef''], None)"
  by (simp add: BalancePeers_def Keys_def next_fault_def swapPeers_def fixture_defs
      DAList.update.rep_eq DAList.empty.rep_eq keyToID_def balancePrefix_def Let_def)

subsection \<open>The deployment loop\<close>

declare deployLoop_from.simps [simp del]

lemma attemptError_submitted [simp]:
  "attemptError (b\<lparr>submitted := x\<rparr>) n = attemptError b n"
  by (simp add: attemptError_def split: prod.splits option.splits)

lemma deployLoop_from_done:
  assumes "\<not> try < deployRetries G"
  shows "deployLoop_from G try addr err s b now = ((addr, err), s, b, now)"
  using assms by (subst deployLoop_from.simps) simp

text \<open>One iteration whose attempt fails: the loop goes on with the error of the attempt.\<close>

lemma deployLoop_from_fail:
  assumes "try < deployRetries G"
    and "attemptError b (length (submitted b)) = Some e"
  shows "\<exists>addr' s'. deployLoop_from G try addr err s b now =
     deployLoop_from G (try + 1) addr' (Some e) s'
       (b\<lparr>submitted := submitted b @ [if try > 0 then now + deployDelay G else now]\<rparr>)
       (if try > 0 then now + deployDelay G else now)"
proof (cases "deployReply b (length (submitted b))")
  case (fields ref tx de)
  show ?thesis
  proof (cases de)
    case (Some e')
    with fields assms show ?thesis
      by (subst deployLoop_from.simps) (auto simp: swap_Deploy_def Let_def attemptError_def)
  next
    case None
    with fields assms obtain a where "waitReply b tx = (a, Some e)"
      by (cases "waitReply b tx") (auto simp: attemptError_def)
    with None fields assms show ?thesis
      by (subst deployLoop_from.simps) (auto simp: swap_Deploy_def Let_def WaitDeployed_def)
  qed
qed

text \<open>One iteration whose attempt succeeds: the loop returns without error.\<close>

lemma deployLoop_from_success:
  assumes "try < deployRetries G"
    and "attemptError b (length (submitted b)) = None"
  shows "\<exists>addr' s'. deployLoop_from G try addr err s b now =
     ((addr', None), s',
      b\<lparr>submitted := submitted b @ [if try > 0 then now + deployDelay G else now]\<rparr>,
      if try > 0 then now + deployDelay G else now)"
proof (cases "deployReply b (length (submitted b))")
  case (fields ref tx de)
  with assms have de: "de = None" by (cases de) (auto simp: attemptError_def)
  with fields assms obtain a where "waitReply b tx = (a, None)"
    by (cases "waitReply b tx") (auto simp: attemptError_def)
  with de fields assms show ?thesis
    by (subst deployLoop_from.simps) (auto simp: swap_Deploy_def Let_def WaitDeployed_def)
qed

lemma upt_0_Suc_map: "map f [0..<Suc n] = f 0 # map (\<lambda>i. f (Suc i)) [0..<n]"
  by (simp add: upt_conv_Cons map_Suc_upt [symmetric] del: upt_Suc)

text \<open>
  \<open>n\<close> iterations are left, and the next \<open>n\<close> attempts fail: the loop makes them all, the
  first at \<open>t0\<close> and each further one \<open>deployDelay\<close> later, and returns the error of the last.
\<close>

lemma deployLoop_from_all_fail:
  assumes "0 \<le> try" and "n = nat (deployRetries G - try)" and "0 < n"
    and "\<forall>i < n. attemptError b (length (submitted b) + i) \<noteq> None"
  shows "\<exists>addr' s'. deployLoop_from G try addr err s b now =
     ((addr', attemptError b (length (submitted b) + n - 1)), s',
      b\<lparr>submitted := submitted b @
           map (\<lambda>i. (if try > 0 then now + deployDelay G else now) + i * deployDelay G) [0..<n]\<rparr>,
      (if try > 0 then now + deployDelay G else now) + (n - 1) * deployDelay G)"
  using assms
proof (induction n arbitrary: "try" addr err s b now)
  case 0
  then show ?case by simp
next
  case (Suc m)
  let ?t0 = "if try > 0 then now + deployDelay G else now"
  let ?b1 = "b\<lparr>submitted := submitted b @ [?t0]\<rparr>"
  from Suc.prems have lt: "try < deployRetries G" by simp
  from Suc.prems(4) obtain e where e: "attemptError b (length (submitted b)) = Some e"
    by (metis add.right_neutral not_Some_eq zero_less_Suc)
  from deployLoop_from_fail [OF lt e, of addr err s now]
  obtain a1 s1 where step: "deployLoop_from G try addr err s b now =
      deployLoop_from G (try + 1) a1 (Some e) s1 ?b1 ?t0" by blast
  show ?case
  proof (cases m)
    case 0
    with Suc.prems have "\<not> try + 1 < deployRetries G" by simp
    from deployLoop_from_done [OF this] step e 0 show ?thesis by simp
  next
    case (Suc m')
    have p1: "0 \<le> try + 1" using Suc.prems by simp
    have p2: "m = nat (deployRetries G - (try + 1))" using Suc.prems by simp
    have p3: "0 < m" using Suc by simp
    have p4: "\<forall>i < m. attemptError ?b1 (length (submitted ?b1) + i) \<noteq> None"
      using Suc.prems(4) by auto
    from Suc.IH [OF p1 p2 p3 p4, of a1 "Some e" s1 ?t0]
    obtain a2 s2 where "deployLoop_from G (try + 1) a1 (Some e) s1 ?b1 ?t0 =
        ((a2, attemptError ?b1 (length (submitted ?b1) + m - 1)), s2,
         ?b1\<lparr>submitted := submitted ?b1 @
             map (\<lambda>i. (if try + 1 > 0 then ?t0 + deployDelay G else ?t0) + i * deployDelay G) [0..<m]\<rparr>,
         (if try + 1 > 0 then ?t0 + deployDelay G else ?t0) + (m - 1) * deployDelay G)"
      by blast
    with step Suc.prems(1) p3 show ?thesis
      by (simp add: upt_0_Suc_map add.assoc del: upt_Suc) (simp add: algebra_simps)
  qed
qed

text \<open>The next \<open>k\<close> attempts fail, the one after succeeds, and more than \<open>k\<close> iterations are left.\<close>

lemma deployLoop_from_succeeds:
  assumes "0 \<le> try" and "int k < deployRetries G - try"
    and "\<forall>i < k. attemptError b (length (submitted b) + i) \<noteq> None"
    and "attemptError b (length (submitted b) + k) = None"
  shows "\<exists>addr' s'. deployLoop_from G try addr err s b now =
     ((addr', None), s',
      b\<lparr>submitted := submitted b @
           map (\<lambda>i. (if try > 0 then now + deployDelay G else now) + i * deployDelay G) [0..<Suc k]\<rparr>,
      (if try > 0 then now + deployDelay G else now) + k * deployDelay G)"
  using assms
proof (induction k arbitrary: "try" addr err s b now)
  case 0
  then have lt: "try < deployRetries G" by simp
  from deployLoop_from_success [OF lt, of b addr err s now] 0 show ?case by simp
next
  case (Suc k)
  let ?t0 = "if try > 0 then now + deployDelay G else now"
  let ?b1 = "b\<lparr>submitted := submitted b @ [?t0]\<rparr>"
  from Suc.prems have lt: "try < deployRetries G" by simp
  from Suc.prems(3) obtain e where e: "attemptError b (length (submitted b)) = Some e"
    by (metis add.right_neutral not_Some_eq zero_less_Suc)
  from deployLoop_from_fail [OF lt e, of addr err s now]
  obtain a1 s1 where step: "deployLoop_from G try addr err s b now =
      deployLoop_from G (try + 1) a1 (Some e) s1 ?b1 ?t0" by blast
  have p1: "0 \<le> try + 1" using Suc.prems by simp
  have p2: "int k < deployRetries G - (try + 1)" using Suc.prems by simp
  have p3: "\<forall>i < k. attemptError ?b1 (length (submitted ?b1) + i) \<noteq> None"
    using Suc.prems(3) by auto
  have p4: "attemptError ?b1 (length (submitted ?b1) + k) = None"
    using Suc.prems(4) by simp
  from Suc.IH [OF p1 p2 p3 p4, of a1 "Some e" s1 ?t0]
  obtain a2 s2 where "deployLoop_from G (try + 1) a1 (Some e) s1 ?b1 ?t0 =
      ((a2, None), s2,
       ?b1\<lparr>submitted := submitted ?b1 @
           map (\<lambda>i. (if try + 1 > 0 then ?t0 + deployDelay G else ?t0) + i * deployDelay G) [0..<Suc k]\<rparr>,
       (if try + 1 > 0 then ?t0 + deployDelay G else ?t0) + k * deployDelay G)"
    by blast
  with step Suc.prems(1) show ?case
    by (simp add: upt_0_Suc_map [of _ "Suc k"] algebra_simps del: upt_Suc)
qed

lemma deploy_error: "fst (deploy G s b now) = snd (fst (deployLoop G s b now))"
  by (simp add: deploy_def split: prod.splits option.splits)

text \<open>
  C8. The retry bound \<^verbatim>\<open>deployRetries\<close> is a positive constant. (1) On a backend whose
  next \<open>k\<close> attempts fail and whose attempt after these succeeds, \<^verbatim>\<open>deployLoop\<close> returns
  without error if and only if \<open>k\<close> is less than the bound. (2) On a backend whose
  attempts all fail, \<^verbatim>\<open>deployLoop\<close> submits exactly \<^verbatim>\<open>deployRetries\<close> transactions, the
  first at once and each further one \<^verbatim>\<open>deployDelay\<close> after the one before, and its
  error, which \<^verbatim>\<open>deploy\<close> returns as it is, is the error of the last attempt.
\<close>

theorem deployLoop_retries:
  assumes pos: "0 < deployRetries G"
  shows "((\<forall>i < k. attemptError b (length (submitted b) + i) \<noteq> None)
          \<and> attemptError b (length (submitted b) + k) = None \<longrightarrow>
            (snd (fst (deployLoop G s b now)) = None \<longleftrightarrow> int k < deployRetries G))
     \<and> ((\<forall>i. attemptError b (length (submitted b) + i) \<noteq> None) \<longrightarrow>
            snd (fst (deployLoop G s b now))
              = attemptError b (length (submitted b) + nat (deployRetries G) - 1)
            \<and> fst (deploy G s b now)
              = attemptError b (length (submitted b) + nat (deployRetries G) - 1)
            \<and> submitted (fst (snd (snd (deployLoop G s b now))))
              = submitted b @ map (\<lambda>i. now + i * deployDelay G) [0..<nat (deployRetries G)])"
proof (intro conjI impI)
  assume h: "(\<forall>i < k. attemptError b (length (submitted b) + i) \<noteq> None)
      \<and> attemptError b (length (submitted b) + k) = None"
  show "snd (fst (deployLoop G s b now)) = None \<longleftrightarrow> int k < deployRetries G"
  proof (cases "int k < deployRetries G")
    case True
    from deployLoop_from_succeeds [of 0 k G b 0 None s now] True h
    show ?thesis by (auto simp: deployLoop_def)
  next
    case False
    let ?n = "nat (deployRetries G)"
    have n: "0 < ?n" "?n \<le> k" using pos False by simp_all
    then have all: "\<forall>i < ?n. attemptError b (length (submitted b) + i) \<noteq> None"
      using h by simp
    from deployLoop_from_all_fail [of 0 ?n G b 0 None s now] n all
    have "snd (fst (deployLoop G s b now)) = attemptError b (length (submitted b) + ?n - 1)"
      by (auto simp: deployLoop_def)
    moreover have "attemptError b (length (submitted b) + ?n - 1) \<noteq> None"
      using all n by (metis Nat.add_diff_assoc One_nat_def Suc_leI diff_less zero_less_one)
    ultimately show ?thesis using False by simp
  qed
next
  assume all: "\<forall>i. attemptError b (length (submitted b) + i) \<noteq> None"
  let ?n = "nat (deployRetries G)"
  have n: "0 < ?n" using pos by simp
  from deployLoop_from_all_fail [of 0 ?n G b 0 None s now] n all
  have r: "snd (fst (deployLoop G s b now)) = attemptError b (length (submitted b) + ?n - 1)
      \<and> submitted (fst (snd (snd (deployLoop G s b now))))
          = submitted b @ map (\<lambda>i. now + i * deployDelay G) [0..<?n]"
    by (auto simp: deployLoop_def)
  then show "snd (fst (deployLoop G s b now)) = attemptError b (length (submitted b) + ?n - 1)"
    and "submitted (fst (snd (snd (deployLoop G s b now))))
          = submitted b @ map (\<lambda>i. now + i * deployDelay G) [0..<?n]"
    by simp_all
  from r show "fst (deploy G s b now) = attemptError b (length (submitted b) + ?n - 1)"
    by (simp add: deploy_error)
qed

theorem deployLoop_retries_witness:
  "snd (fst (deployLoop pkgT swapT (backendT 2) 10)) = None
   \<and> snd (fst (deployLoop pkgT swapT (backendT 7) 10)) \<noteq> None
   \<and> snd (fst (deployLoop pkgT swapT backendDown 10)) = Some (Err ''xxxx'')
   \<and> submitted (fst (snd (snd (deployLoop pkgT swapT backendDown 10)))) = [10, 11, 12, 13, 14]"
proof -
  have pos: "0 < deployRetries pkgT" by (simp add: pkgT_def)
  have R: "deployRetries pkgT = 5" "deployDelay pkgT = 1" by (simp_all add: pkgT_def)
  have h2: "(\<forall>i < 2. attemptError (backendT 2) (length (submitted (backendT 2)) + i) \<noteq> None)
      \<and> attemptError (backendT 2) (length (submitted (backendT 2)) + 2) = None"
    by (simp add: backendT_def attemptError_def)
  have h7: "(\<forall>i < 7. attemptError (backendT 7) (length (submitted (backendT 7)) + i) \<noteq> None)
      \<and> attemptError (backendT 7) (length (submitted (backendT 7)) + 7) = None"
    by (simp add: backendT_def attemptError_def)
  have hd: "\<forall>i. attemptError backendDown (length (submitted backendDown) + i) \<noteq> None"
    by (simp add: backendDown_def attemptError_def)
  have last: "attemptError backendDown (length (submitted backendDown) + nat 5 - 1) = Some (Err ''xxxx'')"
    by (simp add: backendDown_def attemptError_def eval_nat_numeral)
  have sub: "submitted backendDown @ map (\<lambda>i. 10 + i * 1) [0..<nat 5] = [10, 11, 12, 13, 14]"
    by (simp add: backendDown_def eval_nat_numeral upt_rec)
  from deployLoop_retries [OF pos, of 2 "backendT 2" swapT 10] h2 R
  have A: "snd (fst (deployLoop pkgT swapT (backendT 2) 10)) = None" by simp
  from deployLoop_retries [OF pos, of 7 "backendT 7" swapT 10] h7 R
  have B: "snd (fst (deployLoop pkgT swapT (backendT 7) 10)) \<noteq> None" by simp
  from deployLoop_retries [OF pos, of _ backendDown swapT 10] hd
  have "snd (fst (deployLoop pkgT swapT backendDown 10))
          = attemptError backendDown (length (submitted backendDown) + nat (deployRetries pkgT) - 1)
      \<and> submitted (fst (snd (snd (deployLoop pkgT swapT backendDown 10))))
          = submitted backendDown @ map (\<lambda>i. 10 + i * deployDelay pkgT) [0..<nat (deployRetries pkgT)]"
    by blast
  with last sub R have C: "snd (fst (deployLoop pkgT swapT backendDown 10)) = Some (Err ''xxxx'')
      \<and> submitted (fst (snd (snd (deployLoop pkgT swapT backendDown 10)))) = [10, 11, 12, 13, 14]"
    by simp
  from A B C show ?thesis by blast
qed

subsection \<open>A store that does not fail\<close>

lemma next_fault_nofault: "faults st = [] \<Longrightarrow> next_fault st = (None, st)"
  by (simp add: next_fault_def)

lemma Put_nofault:
  "faults st = [] \<Longrightarrow> Put st k v = (None, st\<lparr>data := DAList.update k v (data st)\<rparr>)"
  by (simp add: Put_def next_fault_nofault)

lemma Get_int64_nofault: "faults st = [] \<Longrightarrow> snd (Get_int64 st k t) = st"
  by (simp add: Get_int64_def next_fault_nofault split: option.splits store_val.splits)

lemma Get_cheque_nofault: "faults st = [] \<Longrightarrow> snd (Get_cheque st k t) = st"
  by (simp add: Get_cheque_def next_fault_nofault split: option.splits store_val.splits)

lemma loadBalance_nofault:
  "faults (stateStore s) = [] \<Longrightarrow> stateStore (snd (loadBalance G s p)) = stateStore s"
  using Get_int64_nofault [of "stateStore s" "balanceKey G p" 0]
  by (auto simp: loadBalance_def split: option.splits prod.splits)

lemma loadLastSentCheque_nofault:
  "faults (stateStore s) = [] \<Longrightarrow> stateStore (snd (loadLastSentCheque G s p)) = stateStore s"
  using Get_cheque_nofault [of "stateStore s" "sentChequeKey G p" None]
  by (auto simp: loadLastSentCheque_def split: option.splits prod.splits)

lemma updateBalance_nofault:
  assumes "faults (stateStore s) = []"
  shows "snd (fst (updateBalance G s p a)) = None"
    and "faults (stateStore (snd (updateBalance G s p a))) = []"
    and "data (stateStore (snd (updateBalance G s p a)))
           = DAList.update (balanceKey G p) (VInt64 (balanceOf s p + a)) (data (stateStore s))"
  using assms by (simp_all add: updateBalance_def Let_def Put_nofault)

lemma resetBalance_nofault:
  assumes "faults (stateStore s) = []"
  shows "faults (stateStore (resetBalance G s p a)) = []"
    and "data (stateStore (resetBalance G s p a))
           = DAList.update (balanceKey G p) (VInt64 (balanceOf s p + a)) (data (stateStore s))"
  using updateBalance_nofault [OF assms] by (simp_all add: resetBalance_def)

lemma keys_differ: "balanceKey G p \<noteq> sentChequeKey G q"
  by (simp add: balanceKey_def sentChequeKey_def balancePrefix_def sentChequePrefix_def)

text \<open>The last cheque depends on the cache entry and, without one, on the store's entry.\<close>

lemma lastSentCheque_cong:
  assumes "cheques s' p = cheques s p"
    and "faults (stateStore s') = faults (stateStore s)"
    and "DAList.lookup (data (stateStore s')) (sentChequeKey G p)
           = DAList.lookup (data (stateStore s)) (sentChequeKey G p)"
  shows "lastSentCheque G s' p = lastSentCheque G s p"
  using assms
  by (simp add: lastSentCheque_def Get_cheque_def next_fault_def
      split: option.splits list.splits store_val.splits)

lemma lastSentCheque_cached:
  "cheques s p = Some x \<Longrightarrow> lastSentCheque G s p = x"
  by (simp add: lastSentCheque_def)

lemma lastSentCheque_loaded [simp]:
  "lastSentCheque G (snd (loadLastSentCheque G s p)) p = lastSentCheque G s p"
  by (simp add: lastSentCheque_cached)

lemma createCheque_nofault:
  assumes "faults (stateStore s) = []" and "createCheque G s p = Some (x, s1)"
  shows "stateStore s1 = stateStore s" and "lastSentCheque G s1 p = lastSentCheque G s p"
  using createCheque_state [OF assms(2)] loadLastSentCheque_nofault [OF assms(1), of G p]
  by auto

text \<open>
  \<^verbatim>\<open>sendCheque\<close> over a store that does not fail: either no cheque was made (the price or
  the signature failed) and nothing but the cache of last cheques changed, or the cheque
  was stored and handed to the transport, and its amount was added to the balance, in
  memory and in the store.
\<close>

lemma sendCheque_nofault:
  assumes nf: "faults (stateStore s) = []" and run: "sendCheque G s p = Some (r, s')"
  shows "faults (stateStore s') = []
     \<and> ((balances s' = balances s \<and> peers s' = peers s
          \<and> data (stateStore s') = data (stateStore s)
          \<and> lastSentCheque G s' p = lastSentCheque G s p)
        \<or> (\<exists>c s1. createCheque G s p = Some ((Some c, None), s1)
              \<and> cheques s' p = Some (Some c)
              \<and> sentTo s' p = sentTo s p @ [c]
              \<and> DAList.lookup (balances s') p = Some (balanceOf s p + Amount c)
              \<and> DAList.lookup (data (stateStore s')) (balanceKey G p)
                  = Some (VInt64 (balanceOf s p + Amount c))))"
proof (cases "createCheque G s p")
  case None
  with run show ?thesis by (simp add: sendCheque_def)
next
  case (Some x)
  then obtain co eo s1 where x: "createCheque G s p = Some ((co, eo), s1)"
    by (cases x) auto
  note fr = createCheque_frame [OF x]
  note st = createCheque_nofault [OF nf x]
  show ?thesis
  proof (cases eo)
    case (Some e)
    with run x have "s' = s1" by (auto simp: sendCheque_def split: option.splits)
    with fr st nf show ?thesis by simp
  next
    case None
    show ?thesis
    proof (cases co)
      case None
      with run x \<open>eo = None\<close> show ?thesis by (simp add: sendCheque_def)
    next
      case (Some c)
      let ?st2 = "(stateStore s)\<lparr>data := DAList.update (sentChequeKey G p) (VCheque c) (data (stateStore s))\<rparr>"
      let ?s2 = "s1\<lparr>cheques := (cheques s1)(p \<mapsto> Some c), stateStore := ?st2\<rparr>"
      let ?s3 = "resetBalance G ?s2 p (Amount c)"
      have put: "Put (stateStore s1) (sentChequeKey G p) (VCheque c) = (None, ?st2)"
        using nf st by (simp add: Put_nofault)
      have nf2: "faults (stateStore ?s2) = []" using nf by simp
      have b: "balanceOf ?s2 p = balanceOf s p"
        using fr by (simp add: balanceOf_def)
      from run x \<open>eo = None\<close> \<open>co = Some c\<close> put
      have "\<exists>sp. peers s p = Some sp
          \<and> s' = ?s3\<lparr>peers := (peers ?s3)(p \<mapsto> snd (Send sp c))\<rparr>"
        using fr
        by (auto simp: sendCheque_def Let_def getPeer_def split: option.splits prod.splits)
      then obtain sp where sp: "peers s p = Some sp"
        and s': "s' = ?s3\<lparr>peers := (peers ?s3)(p \<mapsto> snd (Send sp c))\<rparr>" by blast
      have "faults (stateStore s') = []"
        using resetBalance_nofault(1) [OF nf2] by (simp add: s')
      moreover have "cheques s' p = Some (Some c)" by (simp add: s')
      moreover have "sentTo s' p = sentTo s p @ [c]"
        by (simp add: s' sentTo_def sp Send_def)
      moreover have "DAList.lookup (balances s') p = Some (balanceOf s p + Amount c)"
        using b by (simp add: s')
      moreover have "DAList.lookup (data (stateStore s')) (balanceKey G p)
          = Some (VInt64 (balanceOf s p + Amount c))"
        using resetBalance_nofault(2) [OF nf2, of G p "Amount c"] b by (simp add: s')
      ultimately show ?thesis using x \<open>eo = None\<close> \<open>co = Some c\<close> by blast
    qed
  qed
qed

lemma Add_load_error:
  assumes "fst (loadBalance G s peer) = Some e" and "e \<noteq> ErrNotFound"
  shows "Add G s amount peer = Some (Some e, snd (loadBalance G s peer))"
  using assms by (cases "loadBalance G s peer") (simp add: Add_def)

text \<open>
  One call of \<^verbatim>\<open>Add\<close> over a store that does not fail. The call sends no cheque or one;
  a cheque sent continues the peer's last cheque and becomes the last cheque; and unless
  the call was stopped at the load or at the disconnect threshold, the balance, in memory
  and in the store, is the loaded balance plus the amount plus the amount of the cheque
  sent.
\<close>

lemma Add_nofault:
  fixes G :: "'p pkg" and s :: "'p Swap" and p :: "'p" and a :: int64
  defines "b1 \<equiv> balanceOf (snd (loadBalance G s p)) p"
  assumes nf: "faults (stateStore s) = []" and run: "Add G s a p = Some (r, s')"
  shows "faults (stateStore s') = [] \<and> priceOracle s' = priceOracle s
     \<and> disconnectThreshold s' = disconnectThreshold s
     \<and> (\<exists>new. sentTo s' p = sentTo s p @ new
          \<and> continues (priceOracle s) (lastSerial (lastSentCheque G s p))
               (lastAmount (lastSentCheque G s p)) new
          \<and> lastSentCheque G s' p = (if new = [] then lastSentCheque G s p else Some (last new))
          \<and> ((fst (loadBalance G s p) = None \<or> fst (loadBalance G s p) = Some ErrNotFound)
               \<and> \<not> disconnectThreshold s \<le>s b1 \<longrightarrow>
                DAList.lookup (balances s') p = Some (b1 + a + sum_list (map Amount new))
                \<and> DAList.lookup (data (stateStore s')) (balanceKey G p)
                    = Some (VInt64 (b1 + a + sum_list (map Amount new)))))"
proof -
  let ?s1 = "snd (loadBalance G s p)"
  let ?s2 = "snd (updateBalance G ?s1 p a)"
  let ?ok = "fst (loadBalance G s p) = None \<or> fst (loadBalance G s p) = Some ErrNotFound"
  let ?P = "\<lambda>new. sentTo s' p = sentTo s p @ new
      \<and> continues (priceOracle s) (lastSerial (lastSentCheque G s p))
           (lastAmount (lastSentCheque G s p)) new
      \<and> lastSentCheque G s' p = (if new = [] then lastSentCheque G s p else Some (last new))
      \<and> (?ok \<and> \<not> disconnectThreshold s \<le>s b1 \<longrightarrow>
            DAList.lookup (balances s') p = Some (b1 + a + sum_list (map Amount new))
            \<and> DAList.lookup (data (stateStore s')) (balanceKey G p)
                = Some (VInt64 (b1 + a + sum_list (map Amount new))))"
  let ?F = "faults (stateStore s') = [] \<and> priceOracle s' = priceOracle s
      \<and> disconnectThreshold s' = disconnectThreshold s"
  have fin: ?thesis if "?F" and "?P new" for new
    using that by blast
  have st1: "stateStore ?s1 = stateStore s" by (rule loadBalance_nofault [OF nf])
  have l1: "lastSentCheque G ?s1 p = lastSentCheque G s p"
    by (rule lastSentCheque_cong) (simp_all add: st1)
  have sent1: "sentTo ?s1 p = sentTo s p" by (simp add: sentTo_def)
  have stopped: ?thesis if "s' = ?s1" and "\<not> (?ok \<and> \<not> disconnectThreshold s \<le>s b1)"
  proof -
    have P: "?P []"
      using that l1 sent1 by auto
    moreover have ?F using that nf st1 by simp
    ultimately show ?thesis by (intro fin)
  qed
  show ?thesis
  proof (cases ?ok)
    case False
    then obtain e where e: "fst (loadBalance G s p) = Some e" "e \<noteq> ErrNotFound"
      by (cases "fst (loadBalance G s p)") auto
    from Add_load_error [OF e, of a] run have "s' = ?s1" by simp
    with False show ?thesis by (intro stopped) simp_all
  next
    case ok: True
    show ?thesis
    proof (cases "disconnectThreshold s \<le>s b1")
      case True
      from Add_rejects [OF ok, of a] True run have "s' = ?s1" by (simp add: b1_def)
      with True show ?thesis by (intro stopped) simp_all
    next
      case below: False
      have nf1: "faults (stateStore ?s1) = []" using nf st1 by simp
      note u = updateBalance_nofault [OF nf1, of G p a]
      have d2: "data (stateStore ?s2)
          = DAList.update (balanceKey G p) (VInt64 (b1 + a)) (data (stateStore s))"
        using u(3) st1 by (simp add: b1_def)
      have l2: "lastSentCheque G ?s2 p = lastSentCheque G s p"
      proof -
        have "lastSentCheque G ?s2 p = lastSentCheque G ?s1 p"
          using keys_differ [of G p p]
          by (intro lastSentCheque_cong) (simp_all add: u nf nf1 d2 st1)
        with l1 show ?thesis by simp
      qed
      have sent2: "sentTo ?s2 p = sentTo s p" by (simp add: sentTo_def)
      have b2: "balanceOf ?s2 p = b1 + a" by (simp add: b1_def)
      have A: "Add G s a p =
          (if b1 + a \<le>s - paymentThreshold s then sendCheque G ?s2 p else Some (None, ?s2))"
        using Add_continues [OF ok _ u(1)] below by (simp add: b1_def)
      show ?thesis
      proof (cases "b1 + a \<le>s - paymentThreshold s")
        case False
        with A run have s': "s' = ?s2" by simp
        have P: "?P []"
          using l2 sent2 d2 by (simp add: s' b1_def)
        moreover have ?F using u(2) by (simp add: s')
        ultimately show ?thesis by (intro fin)
      next
        case True
        with A run have sc: "sendCheque G ?s2 p = Some (r, s')" by simp
        note fr = sendCheque_frame [OF sc]
        from sendCheque_nofault [OF u(2) sc]
        have nf': "faults (stateStore s') = []"
          and alt: "(balances s' = balances ?s2 \<and> peers s' = peers ?s2
                \<and> data (stateStore s') = data (stateStore ?s2)
                \<and> lastSentCheque G s' p = lastSentCheque G ?s2 p)
              \<or> (\<exists>c s1. createCheque G ?s2 p = Some ((Some c, None), s1)
                    \<and> cheques s' p = Some (Some c)
                    \<and> sentTo s' p = sentTo ?s2 p @ [c]
                    \<and> DAList.lookup (balances s') p = Some (balanceOf ?s2 p + Amount c)
                    \<and> DAList.lookup (data (stateStore s')) (balanceKey G p)
                        = Some (VInt64 (balanceOf ?s2 p + Amount c)))"
          by blast+
        from alt show ?thesis
        proof (elim disjE exE conjE)
          assume same: "balances s' = balances ?s2" "peers s' = peers ?s2"
            "data (stateStore s') = data (stateStore ?s2)"
            "lastSentCheque G s' p = lastSentCheque G ?s2 p"
          have P: "?P []"
            using same l2 sent2 d2 by (simp add: sentTo_def b1_def)
          moreover have ?F using nf' fr by simp
          ultimately show ?thesis by (intro fin)
        next
          fix c s1
          assume cc: "createCheque G ?s2 p = Some ((Some c, None), s1)"
            and ch: "cheques s' p = Some (Some c)"
            and se: "sentTo s' p = sentTo ?s2 p @ [c]"
            and ba: "DAList.lookup (balances s') p = Some (balanceOf ?s2 p + Amount c)"
            and da: "DAList.lookup (data (stateStore s')) (balanceKey G p)
                        = Some (VInt64 (balanceOf ?s2 p + Amount c))"
          from createCheque_Some [OF cc] l2 b2
          have c: "Serial c = lastSerial (lastSentCheque G s p) + 1"
            "Amount c = lastAmount (lastSentCheque G s p) + fst (priceOracle s (Honey c))"
            "snd (priceOracle s (Honey c)) = None"
            by simp_all
          have P: "?P [c]"
            using c se sent2 ba da b2 lastSentCheque_cached [OF ch, of G] by simp
          moreover have ?F using nf' fr by simp
          ultimately show ?thesis by (intro fin)
        qed
      qed
    qed
  qed
qed

subsection \<open>The cheques sent in a sequence of calls\<close>

lemma continues_append:
  "continues price k a (xs @ ys) \<longleftrightarrow>
     continues price k a xs
     \<and> continues price (if xs = [] then k else Serial (last xs))
          (if xs = [] then a else Amount (last xs)) ys"
  by (induction xs arbitrary: k a) auto

lemma continues_serials:
  "continues price k a cs \<Longrightarrow> map Serial cs = map (\<lambda>i. k + 1 + of_nat i) [0..<length cs]"
proof (induction cs arbitrary: k a)
  case Nil
  show ?case by simp
next
  case (Cons c cs)
  then have "map Serial cs = map (\<lambda>i. Serial c + 1 + of_nat i) [0..<length cs]"
    and "Serial c = k + 1" by auto
  then show ?case
    by (simp add: upt_0_Suc_map [of _ "length cs"] add.assoc add.commute del: upt_Suc)
qed

lemma AddTrace_Cons:
  assumes "AddTrace G s (a # as) p = Some tr"
  shows "\<exists>r s1 tr'. Add G s a p = Some (r, s1) \<and> AddTrace G s1 as p = Some tr' \<and> tr = s1 # tr'"
  using assms by (auto split: option.splits)

lemma AddTrace_cheques:
  assumes "faults (stateStore s) = []" and "AddTrace G s as p = Some tr"
  shows "\<exists>new. sentTo (last (s # tr)) p = sentTo s p @ new
     \<and> continues (priceOracle s) (lastSerial (lastSentCheque G s p))
          (lastAmount (lastSentCheque G s p)) new
     \<and> lastSentCheque G (last (s # tr)) p
          = (if new = [] then lastSentCheque G s p else Some (last new))"
  using assms
proof (induction as arbitrary: s tr)
  case Nil
  then have "tr = []" by simp
  then show ?case by (intro exI [of _ "[]"]) simp
next
  case (Cons a as)
  from AddTrace_Cons [OF Cons.prems(2)]
  obtain r s1 tr' where add: "Add G s a p = Some (r, s1)"
    and rest: "AddTrace G s1 as p = Some tr'" and tr: "tr = s1 # tr'" by blast
  from Add_nofault [OF Cons.prems(1) add]
  obtain new1 where nf1: "faults (stateStore s1) = []"
    and pr: "priceOracle s1 = priceOracle s"
    and s1: "sentTo s1 p = sentTo s p @ new1"
    and c1: "continues (priceOracle s) (lastSerial (lastSentCheque G s p))
          (lastAmount (lastSentCheque G s p)) new1"
    and l1: "lastSentCheque G s1 p = (if new1 = [] then lastSentCheque G s p else Some (last new1))"
    by blast
  from Cons.IH [OF nf1 rest]
  obtain new2 where s2: "sentTo (last (s1 # tr')) p = sentTo s1 p @ new2"
    and c2: "continues (priceOracle s1) (lastSerial (lastSentCheque G s1 p))
          (lastAmount (lastSentCheque G s1 p)) new2"
    and l2: "lastSentCheque G (last (s1 # tr')) p
          = (if new2 = [] then lastSentCheque G s1 p else Some (last new2))"
    by blast
  have "sentTo (last (s # tr)) p = sentTo s p @ (new1 @ new2)"
    using s1 s2 by (simp add: tr)
  moreover have "continues (priceOracle s) (lastSerial (lastSentCheque G s p))
          (lastAmount (lastSentCheque G s p)) (new1 @ new2)"
    using c1 c2 l1 by (auto simp: continues_append pr lastSerial_def lastAmount_def)
  moreover have "lastSentCheque G (last (s # tr)) p
          = (if new1 @ new2 = [] then lastSentCheque G s p else Some (last (new1 @ new2)))"
    using l1 l2 by (simp add: tr)
  ultimately show ?case by blast
qed

text \<open>
  C4, as the code has it. (1) A cheque that \<^verbatim>\<open>createCheque\<close> returns has the serial of the
  last cheque plus 1 and the amount of the last cheque plus the price of the current
  debt, where the last cheque is the one that \<^verbatim>\<open>loadLastSentCheque\<close> yields: the cached
  one, else the one read from the store, and none (serial and amount 0) when the store has
  none or the read fails. (2) Hence, over a store that does not fail, the cheques sent to
  a peer by a sequence of calls of \<^verbatim>\<open>Add\<close> continue the peer's last cheque: their serials
  are the following numbers, without gap or repetition, and each amount is the amount
  before plus the price of the cheque's own honey.
\<close>

theorem cheque_serials_continue:
  "(createCheque G s peer = Some ((Some c, err), s1) \<longrightarrow>
      Serial c = lastSerial (lastSentCheque G s peer) + 1
      \<and> Amount c = lastAmount (lastSentCheque G s peer) + fst (priceOracle s (- balanceOf s peer)))
   \<and> (faults (stateStore s) = [] \<and> finalState G s amounts peer = Some s' \<longrightarrow>
        (\<exists>new. sentTo s' peer = sentTo s peer @ new
           \<and> continues (priceOracle s) (lastSerial (lastSentCheque G s peer))
                (lastAmount (lastSentCheque G s peer)) new
           \<and> map Serial new
                = map (\<lambda>i. lastSerial (lastSentCheque G s peer) + 1 + of_nat i) [0..<length new]))"
proof (intro conjI impI)
  assume "createCheque G s peer = Some ((Some c, err), s1)"
  from createCheque_Some [OF this]
  show "Serial c = lastSerial (lastSentCheque G s peer) + 1"
    and "Amount c = lastAmount (lastSentCheque G s peer) + fst (priceOracle s (- balanceOf s peer))"
    by simp_all
next
  assume h: "faults (stateStore s) = [] \<and> finalState G s amounts peer = Some s'"
  then obtain tr where tr: "AddTrace G s amounts peer = Some tr" and s': "s' = last (s # tr)"
    by (auto simp: finalState_def)
  from AddTrace_cheques [OF _ tr] h s'
  obtain new where "sentTo s' peer = sentTo s peer @ new"
    and c: "continues (priceOracle s) (lastSerial (lastSentCheque G s peer))
                (lastAmount (lastSentCheque G s peer)) new"
    by blast
  with continues_serials [OF c]
  show "\<exists>new. sentTo s' peer = sentTo s peer @ new
           \<and> continues (priceOracle s) (lastSerial (lastSentCheque G s peer))
                (lastAmount (lastSentCheque G s peer)) new
           \<and> map Serial new
                = map (\<lambda>i. lastSerial (lastSentCheque G s peer) + 1 + of_nat i) [0..<length new]"
    by blast
qed

lemmas trace_defs = finalState_def chequeTrace_def balanceTrace_def sentTo_def

theorem cheque_serials_continue_witness:
  "createdCheque pkgT swapCached ''ab'' = Some (6, 601)
   \<and> continues (priceOracle swapT) 0 0 (sentTo (the (finalState pkgT swapT [- 101, - 120] ''ab'')) ''ab'')
   \<and> chequeTrace pkgT swapT [- 101, - 120] ''ab'' = Some [(1, 101, 101), (2, 221, 120)]"
proof -
  have "\<exists>c e s1. createCheque pkgT swapCached ''ab'' = Some ((Some c, e), s1)"
    by (simp add: swapCached_def fixture_defs run_defs)
  then obtain c e s1 where cc: "createCheque pkgT swapCached ''ab'' = Some ((Some c, e), s1)"
    by blast
  have l: "lastSentCheque pkgT swapCached ''ab'' = Some chequeFive"
    "priceOracle swapCached (- balanceOf swapCached ''ab'') = (101, None)"
    by (simp_all add: swapCached_def fixture_defs lastSentCheque_def balanceOf_def)
  from cheque_serials_continue [of pkgT swapCached "''ab''" c e s1] cc l
  have "Serial c = 6 \<and> Amount c = 601"
    by (simp add: lastSerial_def lastAmount_def chequeFive_def zeroCheque_def)
  with cc have A: "createdCheque pkgT swapCached ''ab'' = Some (6, 601)"
    by (simp add: createdCheque_def)
  have C: "chequeTrace pkgT swapT [- 101, - 120] ''ab'' = Some [(1, 101, 101), (2, 221, 120)]"
    by (simp add: trace_defs fixture_defs run_defs DAList.lookup_update word_sle_eq)
  then obtain sF where fs: "finalState pkgT swapT [- 101, - 120] ''ab'' = Some sF"
    by (auto simp: chequeTrace_def finalState_def)
  have nf: "faults (stateStore swapT) = []" by (simp add: fixture_defs)
  have l0: "lastSentCheque pkgT swapT ''ab'' = None" "sentTo swapT ''ab'' = []"
    by (simp_all add: fixture_defs lastSentCheque_def sentTo_def Get_cheque_def next_fault_def)
  from cheque_serials_continue [of pkgT swapT "''ab''" _ _ _ "[- 101, - 120]" sF] nf fs l0
  have "continues (priceOracle swapT) 0 0 (sentTo sF ''ab'')"
    by (auto simp: lastSerial_def lastAmount_def)
  with fs A C show ?thesis by simp
qed

text \<open>
  The claim C4 as stated fails where the read of the last cheque fails: the store holds
  the cheque with serial 5 sent to the peer in an earlier session, the read fails, and the
  next cheque sent to the peer has serial 1 and the amount 101 alone.
\<close>

theorem cheque_serial_reset:
  "DAList.lookup (data (stateStore swapRestart)) (sentChequeKey pkgT ''ab'') = Some (VCheque chequeFive)
   \<and> Serial chequeFive = 5
   \<and> chequeTrace pkgT swapRestart [- 101] ''ab'' = Some [(1, 101, 101)]"
  by (simp add: trace_defs swapRestart_def chequeFive_def fixture_defs run_defs
      DAList.lookup_update word_sle_eq)

subsection \<open>The balance after a sequence of calls\<close>

lemma not_sle_iff: "\<not> (a :: int64) \<le>s b \<longleftrightarrow> b <s a"
  by (simp add: word_sle_eq word_sless_alt not_le)

lemma loadBalance_inSync:
  assumes "inSync G s p b"
  shows "fst (loadBalance G s p) = None \<or> fst (loadBalance G s p) = Some ErrNotFound"
    and "balanceOf (snd (loadBalance G s p)) p = b"
  using assms
  by (auto simp: inSync_def storedBalance_def loadBalance_def Get_int64_def next_fault_nofault
      balanceOf_def split: option.splits store_val.splits)

lemma Balance_inSync:
  assumes "inSync G s p b"
  shows "fst (fst (Balance G s p)) = b"
  using assms
  by (auto simp: inSync_def storedBalance_def Balance_def Get_int64_def next_fault_nofault
      split: option.splits store_val.splits)

lemma New_inSync:
  assumes "inSync G s p b"
  shows "inSync G (New G (stateStore s) prvkey contract) p b"
  using assms by (simp add: inSync_def storedBalance_def New_def)

lemma AddTrace_balance:
  assumes "inSync G s p b" and "AddTrace G s as p = Some tr"
    and "b <s disconnectThreshold s"
    and "\<forall>st \<in> set tr. balanceOf st p <s disconnectThreshold s"
  shows "\<exists>new. sentTo (last (s # tr)) p = sentTo s p @ new
     \<and> inSync G (last (s # tr)) p (b + sum_list as + sum_list (map Amount new))"
  using assms
proof (induction as arbitrary: s tr b)
  case Nil
  then have "tr = []" by simp
  with Nil.prems(1) show ?case by (intro exI [of _ "[]"]) simp
next
  case (Cons a as)
  from AddTrace_Cons [OF Cons.prems(2)]
  obtain r s1 tr' where add: "Add G s a p = Some (r, s1)"
    and rest: "AddTrace G s1 as p = Some tr'" and tr: "tr = s1 # tr'" by blast
  have nf: "faults (stateStore s) = []" using Cons.prems(1) by (simp add: inSync_def)
  note lb = loadBalance_inSync [OF Cons.prems(1)]
  have below: "\<not> disconnectThreshold s \<le>s b" using Cons.prems(3) by (simp add: not_sle_iff)
  from Add_nofault [OF nf add] lb below
  obtain new1 where nf1: "faults (stateStore s1) = []"
    and thr: "disconnectThreshold s1 = disconnectThreshold s"
    and sent1: "sentTo s1 p = sentTo s p @ new1"
    and bal1: "DAList.lookup (balances s1) p = Some (b + a + sum_list (map Amount new1))"
    and st1: "DAList.lookup (data (stateStore s1)) (balanceKey G p)
                = Some (VInt64 (b + a + sum_list (map Amount new1)))"
    by auto
  let ?b1 = "b + a + sum_list (map Amount new1)"
  have sync1: "inSync G s1 p ?b1"
    using nf1 bal1 st1 by (simp add: inSync_def storedBalance_def)
  have "balanceOf s1 p = ?b1" using bal1 by (simp add: balanceOf_def)
  then have b1: "?b1 <s disconnectThreshold s1"
    using Cons.prems(4) by (simp add: tr thr)
  have rest_below: "\<forall>st \<in> set tr'. balanceOf st p <s disconnectThreshold s1"
    using Cons.prems(4) by (simp add: tr thr)
  from Cons.IH [OF sync1 rest b1 rest_below]
  obtain new2 where sent2: "sentTo (last (s1 # tr')) p = sentTo s1 p @ new2"
    and sync2: "inSync G (last (s1 # tr')) p (?b1 + sum_list as + sum_list (map Amount new2))"
    by blast
  have "sentTo (last (s # tr)) p = sentTo s p @ (new1 @ new2)"
    using sent1 sent2 by (simp add: tr)
  moreover have eq: "?b1 + sum_list as + sum_list (map Amount new2)
      = b + sum_list (a # as) + sum_list (map Amount (new1 @ new2))"
    by (simp add: algebra_simps)
  have fin: "last (s # tr) = last (s1 # tr')" by (simp add: tr)
  have "inSync G (last (s # tr)) p (b + sum_list (a # as) + sum_list (map Amount (new1 @ new2)))"
    using sync2 unfolding fin eq .
  ultimately show ?case by blast
qed

text \<open>
  The claim C1 as stated fails where a cheque is sent: after \<^verbatim>\<open>Add(-40)\<close> and \<^verbatim>\<open>Add(-61)\<close>
  for a peer never seen, with both thresholds 100 and a price of 1:1, the balances after
  the two calls are -40 and 0, all below the disconnect threshold, and the final balance 0
  is not the sum -101 of the amounts: the second call sent a cheque and added its amount
  101 to the balance.
\<close>

theorem balance_not_sum_of_amounts:
  "balanceTrace pkgT swapT [- 40, - 61] ''ab'' = Some [- 40, 0]
   \<and> last [- 40, 0 :: int64] \<noteq> 0 + sum_list [- 40, - 61]"
  by (simp add: trace_defs fixture_defs run_defs DAList.lookup_update word_sle_eq)

subsection \<open>What sendCheque adds to the balance\<close>

text \<open>
  C6 at a concrete run. Both thresholds are 100 and the price is 1:1. Two calls
  \<^verbatim>\<open>Add(-101)\<close> for a peer never seen send the cheques with serials 1 and 2 and the
  cumulative amounts 101 and 202, each for 101 honey. The first call leaves the balance 0.
  The second call adds to the balance the cheque's cumulative amount 202, not the 101
  converted for this cheque, and leaves the balance 101.
\<close>

theorem second_cheque_credits_cumulative_amount:
  "chequeTrace pkgT swapT [- 101, - 101] ''ab'' = Some [(1, 101, 101), (2, 202, 101)]
   \<and> balanceTrace pkgT swapT [- 101, - 101] ''ab'' = Some [0, 101]"
  by (simp add: trace_defs fixture_defs run_defs DAList.lookup_update word_sle_eq)

subsection \<open>Where the cheque path fails\<close>

lemma sendCheque_create_error:
  assumes "createCheque G s p = Some ((co, Some e), s1)"
  shows "sendCheque G s p = Some (Some e, s1)"
  using assms by (simp add: sendCheque_def split: option.splits)

lemma sendCheque_put_error:
  assumes "createCheque G s p = Some ((Some c, None), s1)"
    and "Put (stateStore s1) (sentChequeKey G p) (VCheque c) = (Some e, st')"
  shows "sendCheque G s p =
     Some (Some e, s1\<lparr>cheques := (cheques s1)(p \<mapsto> Some c), stateStore := st'\<rparr>)"
  using assms by (simp add: sendCheque_def Let_def)

lemma sendCheque_sent:
  assumes "createCheque G s p = Some ((Some c, None), s1)"
    and "Put (stateStore s1) (sentChequeKey G p) (VCheque c) = (None, st')"
    and "getPeer s p = Some sp"
  shows "sendCheque G s p =
     Some (sendReply sp c,
           (resetBalance G (s1\<lparr>cheques := (cheques s1)(p \<mapsto> Some c), stateStore := st'\<rparr>) p (Amount c))
             \<lparr>peers := (peers s)(p \<mapsto> sp\<lparr>sent := sent sp @ [c]\<rparr>)\<rparr>)"
  using assms createCheque_frame(2) [OF assms(1)]
  by (simp add: sendCheque_def Let_def getPeer_def Send_def)

text \<open>
  C5, as the code has it. \<^verbatim>\<open>Add\<close> assigns the result of \<^verbatim>\<open>sendCheque\<close> to its named result
  and returns it. Let an \<^verbatim>\<open>Add\<close> load the balance, pass the disconnect check, write the new
  balance \<open>b\<close> and cross the payment threshold. (1) If \<^verbatim>\<open>createCheque\<close> fails with \<open>e\<close>
  (the price conversion or the signature), \<^verbatim>\<open>Add\<close> returns \<open>e\<close>. (2) If the write of
  the cheque fails with \<open>e\<close>, \<^verbatim>\<open>Add\<close> returns \<open>e\<close>. In both cases the balance is \<open>b\<close>, in
  memory and in the store, and no cheque was handed to the transport. (3) If the transport
  fails with \<open>e\<close>, \<^verbatim>\<open>Add\<close> returns \<open>e\<close>, the cheque was handed to the transport and stays
  the peer's last cheque, and the credit of \<^verbatim>\<open>resetBalance\<close> stays: for a peer with no
  earlier cheque the balance in memory is \<open>b\<close> plus the price of the debt \<open>- b\<close>.
\<close>

theorem Add_returns_cheque_error:
  fixes G :: "'p pkg" and s :: "'p Swap" and peer :: "'p" and amount :: int64
  defines "s1 \<equiv> snd (loadBalance G s peer)"
  defines "b \<equiv> balanceOf s1 peer + amount"
  defines "s2 \<equiv> snd (updateBalance G s1 peer amount)"
  assumes load: "fst (loadBalance G s peer) = None \<or> fst (loadBalance G s peer) = Some ErrNotFound"
    and below: "\<not> disconnectThreshold s \<le>s balanceOf s1 peer"
    and put: "snd (fst (updateBalance G s1 peer amount)) = None"
    and crosses: "b \<le>s - paymentThreshold s"
  shows "(createCheque G s2 peer = Some ((co, Some e), s3) \<longrightarrow>
            Add G s amount peer = Some (Some e, s3)
            \<and> DAList.lookup (balances s3) peer = Some b
            \<and> DAList.lookup (data (stateStore s3)) (balanceKey G peer) = Some (VInt64 b)
            \<and> sentTo s3 peer = sentTo s peer)
     \<and> (createCheque G s2 peer = Some ((Some c, None), s3)
          \<and> fst (Put (stateStore s3) (sentChequeKey G peer) (VCheque c)) = Some e \<longrightarrow>
            (\<exists>s4. Add G s amount peer = Some (Some e, s4)
               \<and> DAList.lookup (balances s4) peer = Some b
               \<and> DAList.lookup (data (stateStore s4)) (balanceKey G peer) = Some (VInt64 b)
               \<and> sentTo s4 peer = sentTo s peer))
     \<and> (createCheque G s2 peer = Some ((Some c, None), s3)
          \<and> fst (Put (stateStore s3) (sentChequeKey G peer) (VCheque c)) = None
          \<and> getPeer s peer = Some sp \<and> sendReply sp c = Some e \<longrightarrow>
            (\<exists>s4. Add G s amount peer = Some (Some e, s4)
               \<and> sentTo s4 peer = sentTo s peer @ [c]
               \<and> cheques s4 peer = Some (Some c)
               \<and> (lastAmount (lastSentCheque G s2 peer) = 0 \<longrightarrow>
                    DAList.lookup (balances s4) peer = Some (b + fst (priceOracle s (- b))))))"
proof -
  have A: "Add G s amount peer = sendCheque G s2 peer"
    using Add_continues [of G s peer amount] load below put crosses
    by (simp add: s1_def s2_def b_def)
  have b2: "DAList.lookup (balances s2) peer = Some b" "balanceOf s2 peer = b"
    by (simp_all add: s2_def b_def)
  have d2: "DAList.lookup (data (stateStore s2)) (balanceKey G peer) = Some (VInt64 b)"
    using put by (simp add: s2_def b_def updateBalance_data)
  have p2: "peers s2 = peers s" "priceOracle s2 = priceOracle s"
    by (simp_all add: s2_def s1_def)
  have st2: "sentTo s2 peer = sentTo s peer" by (simp add: sentTo_def p2)
  show ?thesis
  proof (intro conjI impI)
    assume h: "createCheque G s2 peer = Some ((co, Some e), s3)"
    note fr = createCheque_frame [OF h]
    show "Add G s amount peer = Some (Some e, s3)"
      using A sendCheque_create_error [OF h] by simp
    show "DAList.lookup (balances s3) peer = Some b" using fr b2 by simp
    show "DAList.lookup (data (stateStore s3)) (balanceKey G peer) = Some (VInt64 b)"
      using fr d2 by simp
    show "sentTo s3 peer = sentTo s peer" using fr st2 by (simp add: sentTo_def)
  next
    assume h: "createCheque G s2 peer = Some ((Some c, None), s3)
        \<and> fst (Put (stateStore s3) (sentChequeKey G peer) (VCheque c)) = Some e"
    then have cc: "createCheque G s2 peer = Some ((Some c, None), s3)" by simp
    note fr = createCheque_frame [OF cc]
    obtain st' where pe: "Put (stateStore s3) (sentChequeKey G peer) (VCheque c) = (Some e, st')"
      using h by (cases "Put (stateStore s3) (sentChequeKey G peer) (VCheque c)") auto
    have dst: "data st' = data (stateStore s3)"
      using Put_data [of "stateStore s3" "sentChequeKey G peer" "VCheque c"] pe by simp
    let ?s4 = "s3\<lparr>cheques := (cheques s3)(peer \<mapsto> Some c), stateStore := st'\<rparr>"
    have "Add G s amount peer = Some (Some e, ?s4)"
      using A sendCheque_put_error [OF cc pe] by simp
    moreover have "DAList.lookup (balances ?s4) peer = Some b" using fr b2 by simp
    moreover have "DAList.lookup (data (stateStore ?s4)) (balanceKey G peer) = Some (VInt64 b)"
      using fr d2 dst by simp
    moreover have "sentTo ?s4 peer = sentTo s peer" using fr st2 by (simp add: sentTo_def)
    ultimately show "\<exists>s4. Add G s amount peer = Some (Some e, s4)
        \<and> DAList.lookup (balances s4) peer = Some b
        \<and> DAList.lookup (data (stateStore s4)) (balanceKey G peer) = Some (VInt64 b)
        \<and> sentTo s4 peer = sentTo s peer"
      by blast
  next
    assume h: "createCheque G s2 peer = Some ((Some c, None), s3)
        \<and> fst (Put (stateStore s3) (sentChequeKey G peer) (VCheque c)) = None
        \<and> getPeer s peer = Some sp \<and> sendReply sp c = Some e"
    then have cc: "createCheque G s2 peer = Some ((Some c, None), s3)" by simp
    note fr = createCheque_frame [OF cc]
    note cs = createCheque_Some [OF cc]
    obtain st' where pe: "Put (stateStore s3) (sentChequeKey G peer) (VCheque c) = (None, st')"
      using h by (cases "Put (stateStore s3) (sentChequeKey G peer) (VCheque c)") auto
    have gp: "getPeer s2 peer = Some sp" using h p2 by (simp add: getPeer_def)
    let ?s3' = "s3\<lparr>cheques := (cheques s3)(peer \<mapsto> Some c), stateStore := st'\<rparr>"
    let ?s4 = "(resetBalance G ?s3' peer (Amount c))
        \<lparr>peers := (peers s2)(peer \<mapsto> sp\<lparr>sent := sent sp @ [c]\<rparr>)\<rparr>"
    have b3: "balanceOf ?s3' peer = b" using fr b2 by (simp add: balanceOf_def)
    have "Add G s amount peer = Some (Some e, ?s4)"
      using A sendCheque_sent [OF cc pe gp] h by simp
    moreover have "sentTo ?s4 peer = sentTo s peer @ [c]"
      using h p2 by (simp add: sentTo_def getPeer_def)
    moreover have "cheques ?s4 peer = Some (Some c)" by simp
    moreover have "lastAmount (lastSentCheque G s2 peer) = 0 \<longrightarrow>
        DAList.lookup (balances ?s4) peer = Some (b + fst (priceOracle s (- b)))"
      using cs b3 b2 p2 by simp
    ultimately show "\<exists>s4. Add G s amount peer = Some (Some e, s4)
        \<and> sentTo s4 peer = sentTo s peer @ [c]
        \<and> cheques s4 peer = Some (Some c)
        \<and> (lastAmount (lastSentCheque G s2 peer) = 0 \<longrightarrow>
              DAList.lookup (balances s4) peer = Some (b + fst (priceOracle s (- b))))"
      by blast
  qed
qed

theorem Add_returns_cheque_error_witness:
  "AddOutcome pkgT swapNoPrice (- 101) ''ab''
     = Some (Some (Err ''no price''), Some (- 101), Some (VInt64 (- 101)))
   \<and> AddOutcome pkgT swapChequeWriteFault (- 101) ''ab''
     = Some (Some (Err ''io''), Some (- 101), Some (VInt64 (- 101)))
   \<and> (\<exists>s4. Add pkgT swapLinkDown (- 101) ''ab'' = Some (Some (Err ''link down''), s4)
          \<and> DAList.lookup (balances s4) ''ab'' = Some 0
          \<and> map Serial (sentTo s4 ''ab'') = [1])"
proof -
  let ?C = "\<lparr>Contract = 2, Beneficiary = 1, Serial = 1, Amount = 101, Honey = 101,
      Timeout = 0, Sig = []\<rparr>"
  have key: "balanceKey pkgT ''ab'' = ''balance_ab''" "sentChequeKey pkgT ''ab'' = ''sent_cheque_ab''"
    by (simp_all add: pkgT_def balanceKey_def balancePrefix_def sentChequeKey_def sentChequePrefix_def)
  let ?n1 = "snd (loadBalance pkgT swapNoPrice ''ab'')"
  let ?n2 = "snd (updateBalance pkgT ?n1 ''ab'' (- 101))"
  have nload: "fst (loadBalance pkgT swapNoPrice ''ab'') = None
      \<or> fst (loadBalance pkgT swapNoPrice ''ab'') = Some ErrNotFound"
    by (simp add: swapNoPrice_def fixture_defs run_defs)
  have nbelow: "\<not> disconnectThreshold swapNoPrice \<le>s balanceOf ?n1 ''ab''"
    by (simp add: swapNoPrice_def fixture_defs run_defs word_sle_eq)
  have nput: "snd (fst (updateBalance pkgT ?n1 ''ab'' (- 101))) = None"
    by (simp add: swapNoPrice_def fixture_defs run_defs)
  have nb: "balanceOf ?n1 ''ab'' + (- 101) = - 101"
    by (simp add: swapNoPrice_def fixture_defs run_defs)
  have ncross: "balanceOf ?n1 ''ab'' + (- 101) \<le>s - paymentThreshold swapNoPrice"
    by (simp add: swapNoPrice_def fixture_defs run_defs word_sle_eq)
  have ncc: "createCheque pkgT ?n2 ''ab'' = Some ((None, Some (Err ''no price'')), ?n2)"
    by (simp add: swapNoPrice_def fixture_defs run_defs)
  from Add_returns_cheque_error [OF nload nbelow nput ncross, of None "Err ''no price''" ?n2] ncc nb key
  have N: "AddOutcome pkgT swapNoPrice (- 101) ''ab''
      = Some (Some (Err ''no price''), Some (- 101), Some (VInt64 (- 101)))"
    by (simp add: AddOutcome_def)
  let ?w1 = "snd (loadBalance pkgT swapChequeWriteFault ''ab'')"
  let ?w2 = "snd (updateBalance pkgT ?w1 ''ab'' (- 101))"
  let ?w3 = "snd (loadLastSentCheque pkgT ?w2 ''ab'')"
  have wload: "fst (loadBalance pkgT swapChequeWriteFault ''ab'') = None
      \<or> fst (loadBalance pkgT swapChequeWriteFault ''ab'') = Some ErrNotFound"
    by (simp add: swapChequeWriteFault_def fixture_defs run_defs)
  have wbelow: "\<not> disconnectThreshold swapChequeWriteFault \<le>s balanceOf ?w1 ''ab''"
    by (simp add: swapChequeWriteFault_def fixture_defs run_defs word_sle_eq)
  have wput: "snd (fst (updateBalance pkgT ?w1 ''ab'' (- 101))) = None"
    by (simp add: swapChequeWriteFault_def fixture_defs run_defs)
  have wb: "balanceOf ?w1 ''ab'' + (- 101) = - 101"
    by (simp add: swapChequeWriteFault_def fixture_defs run_defs)
  have wcross: "balanceOf ?w1 ''ab'' + (- 101) \<le>s - paymentThreshold swapChequeWriteFault"
    by (simp add: swapChequeWriteFault_def fixture_defs run_defs word_sle_eq)
  have wcc: "createCheque pkgT ?w2 ''ab'' = Some ((Some ?C, None), ?w3)
      \<and> fst (Put (stateStore ?w3) (sentChequeKey pkgT ''ab'') (VCheque ?C)) = Some (Err ''io'')"
    by (simp add: swapChequeWriteFault_def fixture_defs run_defs)
  from Add_returns_cheque_error [OF wload wbelow wput wcross, of _ "Err ''io''" ?w3 ?C] wcc wb key
  have W: "AddOutcome pkgT swapChequeWriteFault (- 101) ''ab''
      = Some (Some (Err ''io''), Some (- 101), Some (VInt64 (- 101)))"
    by (auto simp: AddOutcome_def)
  let ?l1 = "snd (loadBalance pkgT swapLinkDown ''ab'')"
  let ?l2 = "snd (updateBalance pkgT ?l1 ''ab'' (- 101))"
  let ?l3 = "snd (loadLastSentCheque pkgT ?l2 ''ab'')"
  let ?sp = "peerT\<lparr>sendReply := (\<lambda>c. Some (Err ''link down''))\<rparr>"
  have lload: "fst (loadBalance pkgT swapLinkDown ''ab'') = None
      \<or> fst (loadBalance pkgT swapLinkDown ''ab'') = Some ErrNotFound"
    by (simp add: swapLinkDown_def fixture_defs run_defs)
  have lbelow: "\<not> disconnectThreshold swapLinkDown \<le>s balanceOf ?l1 ''ab''"
    by (simp add: swapLinkDown_def fixture_defs run_defs word_sle_eq)
  have lput: "snd (fst (updateBalance pkgT ?l1 ''ab'' (- 101))) = None"
    by (simp add: swapLinkDown_def fixture_defs run_defs)
  have lb: "balanceOf ?l1 ''ab'' + (- 101) = - 101"
    by (simp add: swapLinkDown_def fixture_defs run_defs)
  have lcross: "balanceOf ?l1 ''ab'' + (- 101) \<le>s - paymentThreshold swapLinkDown"
    by (simp add: swapLinkDown_def fixture_defs run_defs word_sle_eq)
  have lcc: "createCheque pkgT ?l2 ''ab'' = Some ((Some ?C, None), ?l3)
      \<and> fst (Put (stateStore ?l3) (sentChequeKey pkgT ''ab'') (VCheque ?C)) = None
      \<and> getPeer swapLinkDown ''ab'' = Some ?sp \<and> sendReply ?sp ?C = Some (Err ''link down'')"
    by (simp add: swapLinkDown_def fixture_defs run_defs)
  have lfirst: "lastAmount (lastSentCheque pkgT ?l2 ''ab'') = 0"
    by (simp add: swapLinkDown_def fixture_defs run_defs lastSentCheque_def lastAmount_def)
  have lprice: "fst (priceOracle swapLinkDown (- (- 101))) = 101"
    by (simp add: swapLinkDown_def fixture_defs)
  have s0: "sentTo swapLinkDown ''ab'' = []"
    by (simp add: swapLinkDown_def fixture_defs sentTo_def)
  from Add_returns_cheque_error [OF lload lbelow lput lcross, of _ "Err ''link down''" ?l3 ?C ?sp]
    lcc lb lfirst lprice s0
  have L: "\<exists>s4. Add pkgT swapLinkDown (- 101) ''ab'' = Some (Some (Err ''link down''), s4)
      \<and> DAList.lookup (balances s4) ''ab'' = Some 0
      \<and> map Serial (sentTo s4 ''ab'') = [1]"
    by auto
  from N W L show ?thesis by blast
qed

subsection \<open>The balance after a sequence of calls, credits included\<close>

text \<open>A call for a registered peer does not panic, and the peer stays registered.\<close>

lemma sendCheque_returns:
  assumes "peers s p \<noteq> None"
  shows "\<exists>r s'. sendCheque G s p = Some (r, s') \<and> peers s' p \<noteq> None"
proof -
  from assms obtain sp where sp: "getPeer s p = Some sp" by (auto simp: getPeer_def)
  then have "createCheque G s p \<noteq> None" by (simp add: createCheque_panics)
  then obtain co eo s1 where cc: "createCheque G s p = Some ((co, eo), s1)"
    by (cases "createCheque G s p") auto
  note fr = createCheque_frame [OF cc]
  show ?thesis
  proof (cases eo)
    case (Some e)
    with sendCheque_create_error [of G s p co e s1] cc fr assms show ?thesis by simp
  next
    case None
    with cc createCheque_no_price [OF sp, of _ G] obtain c where co: "co = Some c"
      by (cases co; cases "priceOracle s (- balanceOf s p)"; cases "snd (priceOracle s (- balanceOf s p))")
        (auto dest: createCheque_price [OF sp, of _ G])
    obtain pe st' where put: "Put (stateStore s1) (sentChequeKey G p) (VCheque c) = (pe, st')"
      by (cases "Put (stateStore s1) (sentChequeKey G p) (VCheque c)") auto
    show ?thesis
    proof (cases pe)
      case (Some e)
      with sendCheque_put_error [of G s p c s1 e st'] cc co None put fr assms
      show ?thesis by simp
    next
      case pn: None
      with sendCheque_sent [of G s p c s1 st' sp] cc co None put sp
      show ?thesis by simp
    qed
  qed
qed

lemma Add_returns:
  assumes "peers s p \<noteq> None"
  shows "\<exists>r s'. Add G s a p = Some (r, s') \<and> peers s' p \<noteq> None"
proof -
  obtain e0 s1 where l: "loadBalance G s p = (e0, s1)"
    by (cases "loadBalance G s p") auto
  obtain nb ue s2 where u: "updateBalance G s1 p a = ((nb, ue), s2)"
    by (cases "updateBalance G s1 p a") auto
  have s1: "s1 = snd (loadBalance G s p)" using l by simp
  have s2: "s2 = snd (updateBalance G s1 p a)" using u by simp
  have p1: "peers s1 p \<noteq> None" using assms by (simp add: s1)
  have p2: "peers s2 p \<noteq> None" using p1 by (simp add: s2)
  from sendCheque_returns [OF p2, of G] p1 p2 l u show ?thesis
    by (auto simp: Add_def split: option.splits)
qed

lemma AddTrace_returns:
  assumes "peers s p \<noteq> None"
  shows "\<exists>tr. AddTrace G s as p = Some tr"
  using assms
proof (induction as arbitrary: s)
  case Nil
  show ?case by simp
next
  case (Cons a as)
  from Add_returns [OF Cons.prems, of G a]
  obtain r s1 where a: "Add G s a p = Some (r, s1)" and p1: "peers s1 p \<noteq> None" by blast
  from Cons.IH [OF p1] a show ?case by auto
qed

text \<open>
  C1, as the code has it. The store does not fail and holds the balance \<open>b0\<close> for the
  peer (zero when it has no entry), and the cache has no entry for the peer or holds
  \<open>b0\<close> too. The peer's balance is below the disconnect threshold before the sequence and
  after each of its calls. (For a registered peer no call panics: \<open>AddTrace_returns\<close>.) If
  the sequence sends no cheque, or sends one cheque to a peer that had no cheque before,
  then the balance after the sequence, which \<^verbatim>\<open>Balance\<close> reads, is \<open>b0\<close> plus the sum of
  the amounts plus, for the cheque sent, the price converted for that cheque (the credit
  of \<^verbatim>\<open>resetBalance\<close>), in 64-bit arithmetic; and \<^verbatim>\<open>Balance\<close> reads the same value from a
  new \<^verbatim>\<open>Swap\<close> over the same store. Nothing is said about sequences that send a second
  or later cheque.
\<close>

theorem balance_after_sequence:
  assumes nofault: "faults (stateStore s) = []"
    and stored: "storedBalance G s peer b0"
    and cache: "DAList.lookup (balances s) peer = None \<or> DAList.lookup (balances s) peer = Some b0"
    and run: "AddTrace G s amounts peer = Some tr"
    and below0: "b0 <s disconnectThreshold s"
    and below: "\<forall>st \<in> set tr. balanceOf st peer <s disconnectThreshold s"
  shows "\<exists>new. sentTo (last (s # tr)) peer = sentTo s peer @ new
     \<and> (length new \<le> 1 \<and> (new \<noteq> [] \<longrightarrow> lastAmount (lastSentCheque G s peer) = 0) \<longrightarrow>
          fst (fst (Balance G (last (s # tr)) peer))
            = b0 + sum_list amounts + sum_list (map (\<lambda>c. fst (priceOracle s (Honey c))) new)
          \<and> fst (fst (Balance G (New G (stateStore (last (s # tr))) prvkey contract) peer))
            = b0 + sum_list amounts + sum_list (map (\<lambda>c. fst (priceOracle s (Honey c))) new))"
proof -
  have "inSync G s peer b0" using nofault stored cache by (simp add: inSync_def)
  from AddTrace_balance [OF this run below0 below]
  obtain new where sent: "sentTo (last (s # tr)) peer = sentTo s peer @ new"
    and sync: "inSync G (last (s # tr)) peer (b0 + sum_list amounts + sum_list (map Amount new))"
    by blast
  from AddTrace_cheques [OF nofault run]
  obtain new' where sent': "sentTo (last (s # tr)) peer = sentTo s peer @ new'"
    and co: "continues (priceOracle s) (lastSerial (lastSentCheque G s peer))
          (lastAmount (lastSentCheque G s peer)) new'"
    by blast
  from sent sent' have "new' = new" by simp
  with co have co: "continues (priceOracle s) (lastSerial (lastSentCheque G s peer))
          (lastAmount (lastSentCheque G s peer)) new" by simp
  have credit: "sum_list (map Amount new) = sum_list (map (\<lambda>c. fst (priceOracle s (Honey c))) new)"
    if "length new \<le> 1" and "new \<noteq> [] \<longrightarrow> lastAmount (lastSentCheque G s peer) = 0"
  proof (cases new)
    case Nil
    then show ?thesis by simp
  next
    case (Cons c cs)
    with that have "cs = []" "lastAmount (lastSentCheque G s peer) = 0" by simp_all
    with co Cons show ?thesis by simp
  qed
  from Balance_inSync [OF sync] Balance_inSync [OF New_inSync [OF sync, of prvkey contract]]
    sent credit
  show ?thesis by (intro exI [of _ new]) auto
qed

theorem balance_after_sequence_witness:
  "fst (fst (Balance pkgT (the (finalState pkgT swapT [- 40, - 61] ''ab'')) ''ab'')) = 0
   \<and> fst (fst (Balance pkgT (New pkgT (stateStore (the (finalState pkgT swapT [- 40, - 61] ''ab''))) 1 2) ''ab'')) = 0
   \<and> chequeTrace pkgT swapT [- 40, - 61] ''ab'' = Some [(1, 101, 101)]"
proof -
  have bt: "balanceTrace pkgT swapT [- 40, - 61] ''ab'' = Some [- 40, 0]"
    by (simp add: trace_defs fixture_defs run_defs DAList.lookup_update word_sle_eq)
  then obtain tr where tr: "AddTrace pkgT swapT [- 40, - 61] ''ab'' = Some tr"
    and bs: "map (\<lambda>s'. balanceOf s' ''ab'') tr = [- 40, 0]"
    by (auto simp: balanceTrace_def)
  have fs: "the (finalState pkgT swapT [- 40, - 61] ''ab'') = last (swapT # tr)"
    unfolding finalState_def tr by simp
  have ct: "chequeTrace pkgT swapT [- 40, - 61] ''ab'' = Some [(1, 101, 101)]"
    by (simp add: trace_defs fixture_defs run_defs DAList.lookup_update word_sle_eq)
  then have "map (\<lambda>c. (Serial c, Amount c, Honey c)) (sentTo (last (swapT # tr)) ''ab'') = [(1, 101, 101)]"
    unfolding chequeTrace_def tr by simp
  then obtain c where sc: "sentTo (last (swapT # tr)) ''ab'' = [c]" and hc: "Honey c = 101"
    by auto
  have nofault: "faults (stateStore swapT) = []" by (simp add: fixture_defs)
  have stored: "storedBalance pkgT swapT ''ab'' 0"
    by (simp add: storedBalance_def fixture_defs)
  have cache: "DAList.lookup (balances swapT) ''ab'' = None \<or> DAList.lookup (balances swapT) ''ab'' = Some 0"
    by (simp add: fixture_defs)
  have thr: "disconnectThreshold swapT = 100" by (simp add: fixture_defs)
  have below0: "0 <s disconnectThreshold swapT" by (simp add: thr word_sless_alt)
  have below: "\<forall>st \<in> set tr. balanceOf st ''ab'' <s disconnectThreshold swapT"
  proof
    fix st assume "st \<in> set tr"
    then have "balanceOf st ''ab'' \<in> set (map (\<lambda>s'. balanceOf s' ''ab'') tr)" by simp
    then have "balanceOf st ''ab'' = - 40 \<or> balanceOf st ''ab'' = 0" by (simp add: bs)
    then show "balanceOf st ''ab'' <s disconnectThreshold swapT"
      by (auto simp: thr word_sless_alt)
  qed
  have s0: "sentTo swapT ''ab'' = []" by (simp add: fixture_defs sentTo_def)
  have first: "lastAmount (lastSentCheque pkgT swapT ''ab'') = 0"
    by (simp add: fixture_defs lastSentCheque_def lastAmount_def Get_cheque_def next_fault_def)
  have price: "\<And>h. fst (priceOracle swapT h) = h" by (simp add: fixture_defs)
  from balance_after_sequence [OF nofault stored cache tr below0 below, of 1 2]
  obtain new where n: "sentTo (last (swapT # tr)) ''ab'' = sentTo swapT ''ab'' @ new"
    and imp: "length new \<le> 1 \<and> (new \<noteq> [] \<longrightarrow> lastAmount (lastSentCheque pkgT swapT ''ab'') = 0) \<longrightarrow>
          fst (fst (Balance pkgT (last (swapT # tr)) ''ab''))
            = 0 + sum_list [- 40, - 61] + sum_list (map (\<lambda>c. fst (priceOracle swapT (Honey c))) new)
          \<and> fst (fst (Balance pkgT (New pkgT (stateStore (last (swapT # tr))) 1 2) ''ab''))
            = 0 + sum_list [- 40, - 61] + sum_list (map (\<lambda>c. fst (priceOracle swapT (Honey c))) new)"
    by blast
  from n s0 sc have new: "new = [c]" by simp
  from imp first show ?thesis
    by (simp add: new price hc fs ct)
qed

subsection \<open>Store keys that balanceKey did not build\<close>

text \<open>
  The claim C9 as stated fails for keys under the balance prefix that \<^verbatim>\<open>balanceKey\<close> did
  not build: the store holds the keys \<open>''balance_ab''\<close> and \<open>''balance_AB''\<close>, both are read
  as the ID 171, and since the second loop does not record what it appends, the peer 171
  is returned twice.
\<close>

theorem BalancePeers_peer_twice:
  "map_option fst (BalancePeers pkgHex swapTwoSpellings) = Some ([171, 171], None)"
  by (simp add: BalancePeers_def Keys_def next_fault_def swapTwoSpellings_def New_def
      DAList.update.rep_eq DAList.empty.rep_eq keyToID_def balancePrefix_def Let_def
      pkgHex_def hexID_def hexDigit_def)

text \<open>The same ID as \<^verbatim>\<open>balanceKey\<close> spells it.\<close>

lemma balanceKey_example: "balanceKey pkgHex 171 = ''balance_ab''"
  by (simp add: balanceKey_def balancePrefix_def pkgHex_def lowerHex_def)

end
